theory Spec2Isabelle
  imports Complex_Main
begin

section \<open>Conventions\<close>

text \<open>
  The development embeds the cart, checkout, inventory and order code of the shop API:
  the Mongoose models \<^verbatim>\<open>models/Product.js\<close>, \<^verbatim>\<open>models/Cart.js\<close> and the Order model, and
  the Express handlers of \<^verbatim>\<open>routes/cart.js\<close>, \<^verbatim>\<open>routes/checkout.js\<close> and the orders router.

  \<^item> A document is a record with the fields of its schema that the modelled code reads or
    writes. Field names are the schema's; \<open>size\<close>, \<open>_id\<close>, \<open>note\<close>, \<open>type\<close> and \<open>method\<close>
    carry a prime because the plain names are taken, and so does a parameter whose
    name is also a field's (\<open>quantity'\<close>, \<open>price'\<close>).
  \<^item> An ObjectId in the database is the string \<open>toString()\<close> gives for it (24
    hexadecimal digits in lower case; the short names \<open>p1\<close>, \<open>u1\<close>, \<open>o1\<close> of the
    example documents stand for such strings). An id in a request is the string as it
    was sent where the handler reads it as a string. A JavaScript Number that holds
    money is a rational, one that holds a count is an integer; a \<open>Date\<close> is the
    number of milliseconds it holds.
  \<^item> A method that awaits \<open>save()\<close> returns \<open>exn + document\<close>: \<open>Inl\<close> is the rejection
    of the promise, \<open>Inr\<close> the document as written. \<open>save()\<close> runs the schema's
    validators, then the schema's \<open>pre('save')\<close> hook, then writes.
  \<^item> A handler returns the response it sends together with the database it leaves
    behind; the \<open>catch\<close> block of a handler is the response \<open>ServerError\<close>.
\<close>

type_synonym oid = string
type_synonym date = nat

datatype exn = TypeError | ValidationError

section \<open>Product (models/Product.js)\<close>

datatype psize = Sm | Md | Lg | Xl

record product =
  name :: string
  price :: rat
  colour :: string
  size' :: psize
  inStock :: bool
  totalStock :: int
  soldCount :: int
  isActive :: bool

text \<open>The virtual \<open>availableStock\<close>.\<close>

definition availableStock :: "product \<Rightarrow> int" where
  "availableStock this = totalStock this - soldCount this"

text \<open>
  The \<open>min\<close> validators of the schema: price, totalStock and soldCount cannot be
  negative.
\<close>

definition product_validate :: "product \<Rightarrow> bool" where
  "product_validate this \<longleftrightarrow>
     0 \<le> product.price this \<and> 0 \<le> totalStock this \<and> 0 \<le> soldCount this"

text \<open>
  The \<open>pre('save')\<close> hook recomputes \<open>inStock\<close>. (It also fills an empty slug from
  the name; the slug is not a field of the record.)
\<close>

definition product_pre_save :: "product \<Rightarrow> product" where
  "product_pre_save this = this\<lparr>inStock := (availableStock this > 0)\<rparr>"

definition product_save :: "product \<Rightarrow> exn + product" where
  "product_save this =
     (if product_validate this then Inr (product_pre_save this) else Inl ValidationError)"

definition updateSoldCount :: "product \<Rightarrow> int \<Rightarrow> exn + product" where
  "updateSoldCount this quantity' =
     (let this1 = this\<lparr>soldCount := soldCount this + quantity'\<rparr>;
          this2 = this1\<lparr>inStock := (availableStock this1 > 0)\<rparr>
      in product_save this2)"

section \<open>Cart (models/Cart.js)\<close>

record variant =
  colour :: string
  size' :: psize

record cartItem =
  id' :: oid
  product :: oid
  quantity :: int
  variant :: variant
  price :: rat

record cart =
  user :: oid
  items :: "cartItem list"
  totalAmount :: rat
  totalItems :: int

text \<open>\<open>Array.prototype.findIndex\<close>; \<open>None\<close> is the result \<open>-1\<close>.\<close>

fun findIndex :: "('a \<Rightarrow> bool) \<Rightarrow> 'a list \<Rightarrow> nat option" where
  "findIndex P [] = None"
| "findIndex P (x # xs) = (if P x then Some 0 else map_option Suc (findIndex P xs))"

text \<open>
  The validators of a line: \<open>quantity\<close> has \<open>min: 1\<close>, and \<open>variant.colour\<close> is
  required, which an empty string fails. (\<open>product\<close>, \<open>price\<close> and \<open>variant.size\<close>
  are required too; in the record they are always there, and the size is one of the
  enum.)
\<close>

definition cart_validate :: "cart \<Rightarrow> bool" where
  "cart_validate this \<longleftrightarrow>
     list_all (\<lambda>item. 1 \<le> cartItem.quantity item \<and>
                        variant.colour (cartItem.variant item) \<noteq> [])
       (items this)"

text \<open>The \<open>pre('save')\<close> hook: both totals are recomputed with \<open>reduce\<close> from 0.\<close>

definition cart_pre_save :: "cart \<Rightarrow> cart" where
  "cart_pre_save this =
     this\<lparr>totalItems := foldl (\<lambda>total item. total + cartItem.quantity item) 0 (items this),
          totalAmount :=
            foldl (\<lambda>total item. total + cartItem.price item * of_int (cartItem.quantity item))
              0 (items this)\<rparr>"

definition cart_save :: "cart \<Rightarrow> exn + cart" where
  "cart_save this =
     (if cart_validate this then Inr (cart_pre_save this) else Inl ValidationError)"

text \<open>The callback of \<open>findIndex\<close> in \<open>addItem\<close>: same product, colour and size.\<close>

definition same_variant :: "oid \<Rightarrow> variant \<Rightarrow> cartItem \<Rightarrow> bool" where
  "same_variant productId v item \<longleftrightarrow>
     cartItem.product item = productId \<and>
     variant.colour (cartItem.variant item) = variant.colour v \<and>
     variant.size' (cartItem.variant item) = variant.size' v"

text \<open>
  \<open>addItem\<close>. A pushed subdocument gets a generated \<open>_id\<close>; it is the argument
  \<open>newId\<close>.
\<close>

definition addItem :: "cart \<Rightarrow> oid \<Rightarrow> int \<Rightarrow> variant \<Rightarrow> rat \<Rightarrow> oid \<Rightarrow> exn + cart" where
  "addItem this productId quantity' v price' newId =
     (case findIndex (same_variant productId v) (items this) of
        Some existingItemIndex \<Rightarrow>
          cart_save (this\<lparr>items := (items this)[existingItemIndex :=
            (items this ! existingItemIndex)\<lparr>cartItem.quantity :=
               cartItem.quantity (items this ! existingItemIndex) + quantity'\<rparr>]\<rparr>)
      | None \<Rightarrow>
          cart_save (this\<lparr>items := items this @
            [\<lparr>id' = newId, product = productId, quantity = quantity', variant = v,
              price = price'\<rparr>]\<rparr>))"

text \<open>
  \<open>updateItemQuantity\<close>: \<open>items.id(itemId)\<close> is the first line with that \<open>_id\<close>,
  \<open>items.pull({_id: itemId})\<close> removes every line with it.
\<close>

definition updateItemQuantity :: "cart \<Rightarrow> oid \<Rightarrow> int \<Rightarrow> exn + cart" where
  "updateItemQuantity this itemId quantity' =
     (case findIndex (\<lambda>item. id' item = itemId) (items this) of
        Some i \<Rightarrow>
          if quantity' \<le> 0
          then cart_save (this\<lparr>items := filter (\<lambda>item. id' item \<noteq> itemId) (items this)\<rparr>)
          else cart_save (this\<lparr>items :=
                 (items this)[i := (items this ! i)\<lparr>cartItem.quantity := quantity'\<rparr>]\<rparr>)
      | None \<Rightarrow> cart_save this)"

definition removeItem :: "cart \<Rightarrow> oid \<Rightarrow> exn + cart" where
  "removeItem this itemId =
     cart_save (this\<lparr>items := filter (\<lambda>item. id' item \<noteq> itemId) (items this)\<rparr>)"

definition clearCart :: "cart \<Rightarrow> exn + cart" where
  "clearCart this = cart_save (this\<lparr>items := []\<rparr>)"

section \<open>Order (the Order model)\<close>

datatype status =
  Pending | Confirmed | Processing | Shipped | Delivered | Cancelled | Refunded | Returned

text \<open>The enum value a status is written as, for the generated history notes.\<close>

fun status_str :: "status \<Rightarrow> string" where
  "status_str Pending = ''pending''"
| "status_str Confirmed = ''confirmed''"
| "status_str Processing = ''processing''"
| "status_str Shipped = ''shipped''"
| "status_str Delivered = ''delivered''"
| "status_str Cancelled = ''cancelled''"
| "status_str Refunded = ''refunded''"
| "status_str Returned = ''returned''"

text \<open>
  The setter \<open>trim: true\<close> of a String path, on ASCII white space
  (\<open>String.prototype.trim\<close> also strips the Unicode spaces).
\<close>

definition is_space :: "char \<Rightarrow> bool" where
  "is_space c \<longleftrightarrow> c \<in> set [CHR '' '', CHR 0x09, CHR 0x0A, CHR 0x0B, CHR 0x0C, CHR 0x0D]"

definition trim :: "string \<Rightarrow> string" where
  "trim s = rev (dropWhile is_space (rev (dropWhile is_space s)))"

record historyEntry =
  status :: status
  date :: date
  note' :: string
  updatedBy :: "oid option"

record orderItem =
  product :: oid
  name :: string
  price :: rat
  quantity :: int
  image :: string
  sku :: string

datatype discountType = Percentage | Fixed

record discount =
  amount :: rat
  code :: string
  type' :: discountType

record paymentInfo =
  method' :: string
  status :: string
  amount :: rat

record refund =
  amount :: rat
  reason :: string
  processedAt :: date
  refundId :: "string option"

text \<open>
  The order document. \<open>isNew\<close> is Mongoose's flag of a document that was never
  written. The paths no modelled method reads or writes (addresses, tracking, notes,
  delivery option, source) are the extension of the record: the methods are defined on
  \<open>'a order_scheme\<close> and leave it alone.
\<close>

record order =
  orderNumber :: string
  user :: oid
  items :: "orderItem list"
  subtotal :: rat
  tax :: rat
  taxRate :: rat
  shippingCost :: rat
  discount :: discount
  total :: rat
  paymentInfo :: "paymentInfo option"
  status :: status
  statusHistory :: "historyEntry list"
  confirmedAt :: "date option"
  shippedAt :: "date option"
  deliveredAt :: "date option"
  cancelledAt :: "date option"
  refund :: "refund option"
  isNew :: bool

text \<open>The virtual \<open>canBeCancelled\<close>.\<close>

definition canBeCancelled :: "'a order_scheme \<Rightarrow> bool" where
  "canBeCancelled this \<longleftrightarrow> order.status this \<in> set [Pending, Confirmed]"

text \<open>
  The validators of the schema that bound a number (\<open>min\<close>, \<open>max\<close>), and
  \<open>required\<close> on \<open>orderNumber\<close>: validation runs before the \<open>pre('save')\<close> hook
  that generates the number.
\<close>

definition order_validate :: "'a order_scheme \<Rightarrow> bool" where
  "order_validate this \<longleftrightarrow>
     orderNumber this \<noteq> [] \<and>
     list_all (\<lambda>item. 0 \<le> orderItem.price item \<and> 1 \<le> orderItem.quantity item)
       (order.items this) \<and>
     0 \<le> subtotal this \<and> 0 \<le> tax this \<and> 0 \<le> taxRate this \<and> taxRate this \<le> 1 \<and>
     0 \<le> shippingCost this \<and> 0 \<le> discount.amount (discount this) \<and> 0 \<le> total this \<and>
     (case paymentInfo this of None \<Rightarrow> True | Some p \<Rightarrow> 0 \<le> paymentInfo.amount p) \<and>
     (case refund this of None \<Rightarrow> True | Some r \<Rightarrow> 0 \<le> refund.amount r)"

text \<open>
  The \<open>pre('save')\<close> hook. The generated number (\<open>ORD\<close>, the last eight digits of
  \<open>Date.now()\<close>, four characters of \<open>Math.random()\<close>) is the argument \<open>num\<close>,
  the value of \<open>new Date()\<close> is \<open>t\<close>.
\<close>

definition order_pre_save :: "'a order_scheme \<Rightarrow> string \<Rightarrow> date \<Rightarrow> 'a order_scheme" where
  "order_pre_save this num t =
     (if isNew this
      then this\<lparr>orderNumber := num,
                statusHistory := statusHistory this @
                  [\<lparr>historyEntry.status = order.status this, date = t,
                    note' = trim ''Order created'', updatedBy = None\<rparr>]\<rparr>
      else this)"

definition order_save :: "'a order_scheme \<Rightarrow> string \<Rightarrow> date \<Rightarrow> exn + 'a order_scheme" where
  "order_save this num t =
     (if order_validate this then Inr ((order_pre_save this num t)\<lparr>isNew := False\<rparr>)
      else Inl ValidationError)"

text \<open>
  \<open>updateStatus\<close>. \<open>clk n\<close> is what the \<open>n\<close>-th read of the clock in the call
  returns. An empty \<open>note\<close> is the falsy one (\<open>''\<close>, or none given).
\<close>

definition updateStatus ::
  "'a order_scheme \<Rightarrow> status \<Rightarrow> string \<Rightarrow> oid option \<Rightarrow> (nat \<Rightarrow> date) \<Rightarrow> string
     \<Rightarrow> exn + 'a order_scheme" where
  "updateStatus this newStatus note updatedBy' clk num =
     (let oldStatus = order.status this;
          this1 = this\<lparr>order.status := newStatus\<rparr>;
          this2 = this1\<lparr>statusHistory := statusHistory this1 @
                    [\<lparr>historyEntry.status = newStatus, date = clk 0,
                      note' = trim (if note \<noteq> [] then note
                                    else ''Status changed from '' @ status_str oldStatus @
                                         '' to '' @ status_str newStatus),
                      updatedBy = updatedBy'\<rparr>]\<rparr>;
          now = clk 1;
          this3 = (case newStatus of
                     Confirmed \<Rightarrow> this2\<lparr>confirmedAt := Some now\<rparr>
                   | Shipped \<Rightarrow> this2\<lparr>shippedAt := Some now\<rparr>
                   | Delivered \<Rightarrow> this2\<lparr>deliveredAt := Some now\<rparr>
                   | Cancelled \<Rightarrow> this2\<lparr>cancelledAt := Some now\<rparr>
                   | _ \<Rightarrow> this2)
      in order_save this3 num (clk 2))"

text \<open>\<open>calculateTotals\<close> (it does not save).\<close>

definition calculateTotals :: "'a order_scheme \<Rightarrow> 'a order_scheme" where
  "calculateTotals this =
     (let this1 = this\<lparr>subtotal :=
                    foldl (\<lambda>total item.
                             total + orderItem.price item * of_int (orderItem.quantity item))
                      0 (order.items this)\<rparr>;
          this2 = this1\<lparr>tax := subtotal this1 * taxRate this1\<rparr>;
          discountAmount =
            (if discount.amount (discount this2) > 0
             then (if type' (discount this2) = Percentage
                   then subtotal this2 * (discount.amount (discount this2) / 100)
                   else discount.amount (discount this2))
             else 0);
          this3 = this2\<lparr>total :=
                    subtotal this2 + tax this2 + shippingCost this2 - discountAmount\<rparr>;
          this4 = this3\<lparr>total := max 0 (total this3)\<rparr>
      in case paymentInfo this4 of
           None \<Rightarrow> this4
         | Some p \<Rightarrow> this4\<lparr>paymentInfo := Some (p\<lparr>paymentInfo.amount := total this4\<rparr>)\<rparr>)"

text \<open>
  \<open>processRefund\<close>. \<open>fmt\<close> is how the template literal writes the amount
  (\<open>Number.prototype.toString\<close>).
\<close>

definition processRefund ::
  "'a order_scheme \<Rightarrow> rat \<Rightarrow> string \<Rightarrow> string option \<Rightarrow> (rat \<Rightarrow> string) \<Rightarrow> (nat \<Rightarrow> date)
     \<Rightarrow> string \<Rightarrow> exn + 'a order_scheme" where
  "processRefund this amount' reason' refundId' fmt clk num =
     (let this1 = this\<lparr>refund := Some \<lparr>refund.amount = amount', reason = trim reason',
                                        processedAt = clk 0, refundId = refundId'\<rparr>\<rparr>;
          this2 = this1\<lparr>order.status := Refunded\<rparr>;
          this3 = this2\<lparr>statusHistory := statusHistory this2 @
                    [\<lparr>historyEntry.status = Refunded, date = clk 1,
                      note' = trim (''Refund processed: $'' @ fmt amount' @
                                    ''. Reason: '' @ reason'),
                      updatedBy = None\<rparr>]\<rparr>
      in order_save this3 num (clk 2))"

section \<open>The database and the handlers\<close>

text \<open>
  The collections: products and orders by \<open>_id\<close>, carts by their user (the schema
  makes \<open>user\<close> unique). A handler below is entered after \<open>authenticate\<close> (and
  \<open>authorize\<close>, where the route has it) let the request through; the validators of the
  request body are its first step, with the response \<open>ValidationFailed\<close>.
\<close>

record db =
  products :: "oid \<rightharpoonup> product"
  carts :: "oid \<rightharpoonup> cart"
  orders :: "oid \<rightharpoonup> order"

record stockIssue =
  productName :: string
  variant :: string
  requested :: int
  available :: int

datatype response =
    Success
  | CheckoutSummary rat rat rat rat
  | ValidationFailed
  | EmptyCart
  | StockIssues "stockIssue list"
  | ProductNotFound
  | VariantNotAvailable
  | InsufficientStock
  | OrderNotFound
  | InvalidStatusTransition
  | CannotCancelOrder
  | InvalidRefundAmount
  | ServerError

text \<open>A document that a query returns is not new.\<close>

definition findOrder :: "db \<Rightarrow> oid \<Rightarrow> order option" where
  "findOrder d i = map_option (\<lambda>doc. doc\<lparr>isNew := False\<rparr>) (orders d i)"

subsection \<open>Values of a request body\<close>

text \<open>
  \<open>req.body.quantity\<close> is what the JSON held: here a number or a string. Of the
  numbers only the integers are represented: \<open>isInt\<close> refuses the others. The other
  values of JSON (arrays, objects, booleans, \<open>null\<close>) are left out.
\<close>

datatype jsval = Num int | Str string

definition is_digit :: "char \<Rightarrow> bool" where
  "is_digit c \<longleftrightarrow> c \<in> set ''0123456789''"

text \<open>The value of a digit, from its character code (\<open>0\<close> is 48).\<close>

definition digit_val :: "char \<Rightarrow> nat" where
  "digit_val c = of_char c - 48"

definition digits_val :: "string \<Rightarrow> nat" where
  "digits_val s = foldl (\<lambda>n c. 10 * n + digit_val c) 0 s"

text \<open>
  \<open>Number(s)\<close>, also the conversion of a string operand of \<open><\<close> and \<open>>\<close>, for the
  strings the handler applies it to: digits with at most a sign in front are their
  value, a string with anything else in it (a sign in the middle) is \<open>NaN\<close>, here
  \<open>None\<close>.
\<close>

definition to_number :: "string \<Rightarrow> int option" where
  "to_number s =
     (case s of
        [] \<Rightarrow> Some 0
      | c # cs \<Rightarrow>
          if c = CHR ''-'' \<or> c = CHR ''+''
          then (if cs \<noteq> [] \<and> list_all is_digit cs
                then Some (if c = CHR ''-'' then - int (digits_val cs) else int (digits_val cs))
                else None)
          else if list_all is_digit s then Some (int (digits_val s)) else None)"

fun to_num :: "jsval \<Rightarrow> int option" where
  "to_num (Num n) = Some n"
| "to_num (Str s) = to_number s"

text \<open>\<open>String(n)\<close> of an integer.\<close>

definition digit_char :: "nat \<Rightarrow> char" where
  "digit_char n = char_of (48 + n)"

function str_of_nat :: "nat \<Rightarrow> string" where
  "str_of_nat n =
     (if n < 10 then [digit_char n] else str_of_nat (n div 10) @ [digit_char (n mod 10)])"
  by pat_completeness auto
termination
  by (relation "measure id") auto

declare str_of_nat.simps [simp del]

definition str_of_int :: "int \<Rightarrow> string" where
  "str_of_int n = (if n < 0 then CHR ''-'' # str_of_nat (nat (- n)) else str_of_nat (nat n))"

text \<open>
  \<open>a + b\<close> with a Number on the left: the sum of two Numbers, the concatenation when
  the right operand is a string.
\<close>

fun js_plus :: "int \<Rightarrow> jsval \<Rightarrow> jsval" where
  "js_plus a (Num b) = Num (a + b)"
| "js_plus a (Str s) = Str (str_of_int a @ s)"

text \<open>\<open>a < b\<close> and \<open>a > b\<close> with a Number on one side; a comparison with \<open>NaN\<close> is false.\<close>

definition js_less :: "int \<Rightarrow> jsval \<Rightarrow> bool" where
  "js_less a b = (case to_num b of None \<Rightarrow> False | Some n \<Rightarrow> a < n)"

definition js_greater :: "jsval \<Rightarrow> int \<Rightarrow> bool" where
  "js_greater a b = (case to_num a of None \<Rightarrow> False | Some n \<Rightarrow> n > b)"

text \<open>
  The validator \<open>isInt({min: 1})\<close>: the value, written as a string, is an optional sign
  and one digit or more, and as a number it is at least 1. It converts nothing: the
  handler gets the value as it was sent.
\<close>

definition isInt_min1 :: "jsval \<Rightarrow> bool" where
  "isInt_min1 q =
     (case q of
        Num n \<Rightarrow> 1 \<le> n
      | Str s \<Rightarrow>
          (let ds = (case s of [] \<Rightarrow> []
                     | c # cs \<Rightarrow> if c = CHR ''-'' \<or> c = CHR ''+'' then cs else s)
           in ds \<noteq> [] \<and> list_all is_digit ds \<and>
              (case to_number s of None \<Rightarrow> False | Some n \<Rightarrow> 1 \<le> n)))"

text \<open>
  The cast of a value assigned to a Number path: a string is converted with
  \<open>Number\<close>; \<open>NaN\<close> is a cast error (and the empty string is \<open>null\<close>, which
  \<open>required\<close> refuses), with which the save rejects.
\<close>

definition castNumber :: "jsval \<Rightarrow> int option" where
  "castNumber q = (if q = Str [] then None else to_num q)"

text \<open>
  The validator \<open>isMongoId\<close>: 24 characters that are hexadecimal digits of either case
  (or such digits after \<open>0x\<close> or \<open>0h\<close>). The cast of the string to an ObjectId, in a
  query or on a path of a document, takes 24 hexadecimal digits and gives the id whose
  string is the digits in lower case; it fails on the prefixed form.
\<close>

definition is_hex :: "char \<Rightarrow> bool" where
  "is_hex c \<longleftrightarrow> c \<in> set ''0123456789abcdefABCDEF''"

definition lower_hex :: "char \<Rightarrow> char" where
  "lower_hex c = (if c \<in> set ''ABCDEF'' then char_of (of_char c + (32 :: nat)) else c)"

definition isMongoId :: "string \<Rightarrow> bool" where
  "isMongoId s \<longleftrightarrow>
     length s = 24 \<and>
     (list_all is_hex s \<or>
      (take 2 s \<in> set [''0x'', ''0X'', ''0h'', ''0H''] \<and> list_all is_hex (drop 2 s)))"

definition castObjectId :: "string \<Rightarrow> oid option" where
  "castObjectId s = (if length s = 24 \<and> list_all is_hex s then Some (map lower_hex s) else None)"

subsection \<open>POST /api/cart/add (routes/cart.js)\<close>

text \<open>
  \<open>productId\<close> and \<open>quantity'\<close> are the values of the body. The query for the
  product and the pushed line cast the id; the search for the line of the cart
  compares \<open>item.product.toString()\<close> with the string as it was sent. The quantity is
  compared and added as it was sent, and cast when it is assigned to the line.
\<close>

definition cart_add ::
  "db \<Rightarrow> oid \<Rightarrow> string \<Rightarrow> jsval \<Rightarrow> string \<Rightarrow> psize \<Rightarrow> oid \<Rightarrow> response \<times> db" where
  "cart_add d userId productId quantity' colour' size'' newId =
     (if \<not> isMongoId productId \<or> \<not> isInt_min1 quantity' \<or> colour' = []
      then (ValidationFailed, d)
      else case castObjectId productId of
        None \<Rightarrow> (ServerError, d)
      | Some castId \<Rightarrow>
         (case products d castId of
            None \<Rightarrow> (ProductNotFound, d)
          | Some product' \<Rightarrow>
              if \<not> isActive product' then (ProductNotFound, d)
              else if product.colour product' \<noteq> colour' \<or> product.size' product' \<noteq> size''
              then (VariantNotAvailable, d)
              else if \<not> inStock product' \<or> js_less (availableStock product') quantity'
              then (InsufficientStock, d)
              else
                let cart = (case carts d userId of
                              Some c \<Rightarrow> c
                            | None \<Rightarrow> \<lparr>cart.user = userId, cart.items = [], totalAmount = 0,
                                        totalItems = 0\<rparr>);
                    v = \<lparr>variant.colour = colour', variant.size' = size''\<rparr>;
                    persist = (\<lambda>c. case cart_save c of
                                      Inl e \<Rightarrow> (ServerError, d)
                                    | Inr c' \<Rightarrow> (Success, d\<lparr>carts := (carts d)(userId \<mapsto> c')\<rparr>))
                in (case findIndex (same_variant productId v) (cart.items cart) of
                     Some existingItemIndex \<Rightarrow>
                       let newQuantity =
                             js_plus (cartItem.quantity (cart.items cart ! existingItemIndex))
                               quantity'
                       in if js_greater newQuantity (availableStock product')
                          then (InsufficientStock, d)
                          else (case castNumber newQuantity of
                                  None \<Rightarrow> (ServerError, d)
                                | Some n \<Rightarrow>
                                    persist (cart\<lparr>cart.items :=
                                      (cart.items cart)[existingItemIndex :=
                                        (cart.items cart ! existingItemIndex)
                                          \<lparr>cartItem.quantity := n\<rparr>]\<rparr>))
                   | None \<Rightarrow>
                       (case castNumber quantity' of
                          None \<Rightarrow> (ServerError, d)
                        | Some n \<Rightarrow>
                            persist (cart\<lparr>cart.items := cart.items cart @
                              [\<lparr>id' = newId, cartItem.product = castId,
                                cartItem.quantity = n, cartItem.variant = v,
                                cartItem.price = product.price product'\<rparr>]\<rparr>)))))"

subsection \<open>POST /api/checkout (routes/checkout.js)\<close>

text \<open>
  \<open>populate('items.product')\<close> puts the product document in place of its id, and
  \<open>null\<close> where no product has the id. Reading \<open>product.inStock\<close> of \<open>null\<close>
  throws, which ends the loop in the \<open>catch\<close> block. The third argument of the loop
  is the array \<open>stockIssues\<close> so far.
\<close>

fun size_str :: "psize \<Rightarrow> string" where
  "size_str Sm = ''sm''"
| "size_str Md = ''md''"
| "size_str Lg = ''lg''"
| "size_str Xl = ''xl''"

fun stock_issues ::
  "(oid \<rightharpoonup> product) \<Rightarrow> cartItem list \<Rightarrow> stockIssue list \<Rightarrow> exn + stockIssue list" where
  "stock_issues ps [] stockIssues = Inr stockIssues"
| "stock_issues ps (item # rest) stockIssues =
     (case ps (cartItem.product item) of
        None \<Rightarrow> Inl TypeError
      | Some product' \<Rightarrow>
          if \<not> inStock product' \<or> availableStock product' < cartItem.quantity item
          then stock_issues ps rest (stockIssues @
                 [\<lparr>productName = product.name product',
                   stockIssue.variant = variant.colour (cartItem.variant item) @ ''/'' @
                                        size_str (variant.size' (cartItem.variant item)),
                   requested = cartItem.quantity item,
                   available = availableStock product'\<rparr>])
          else stock_issues ps rest stockIssues)"

definition checkout :: "db \<Rightarrow> oid \<Rightarrow> response \<times> db" where
  "checkout d userId =
     (case carts d userId of
        None \<Rightarrow> (EmptyCart, d)
      | Some cart \<Rightarrow>
          if cart.items cart = [] then (EmptyCart, d)
          else (case stock_issues (products d) (cart.items cart) [] of
            Inl e \<Rightarrow> (ServerError, d)
          | Inr stockIssues \<Rightarrow>
              if stockIssues \<noteq> [] then (StockIssues stockIssues, d)
              else
                let subtotal' = totalAmount cart;
                    taxRate' = 1 / 10;
                    tax' = subtotal' * taxRate';
                    shippingThreshold = 100;
                    shippingCost' = (if subtotal' \<ge> shippingThreshold then 0 else 10);
                    total' = subtotal' + tax' + shippingCost'
                in (CheckoutSummary subtotal' tax' shippingCost' total', d)))"

subsection \<open>POST /api/checkout/complete (routes/checkout.js)\<close>

text \<open>
  The loop over the populated lines. \<open>item.product._id\<close> of a line whose product is
  gone throws; \<open>findById\<close> then reads the product as the loop left it. An exception
  leaves the products written so far as they are.
\<close>

fun sell_items ::
  "(oid \<rightharpoonup> product) \<Rightarrow> (oid \<rightharpoonup> product) \<Rightarrow> cartItem list \<Rightarrow> exn option \<times> (oid \<rightharpoonup> product)"
  where
  "sell_items populated ps [] = (None, ps)"
| "sell_items populated ps (item # rest) =
     (case populated (cartItem.product item) of
        None \<Rightarrow> (Some TypeError, ps)
      | Some _ \<Rightarrow>
          (case ps (cartItem.product item) of
             None \<Rightarrow> sell_items populated ps rest
           | Some product' \<Rightarrow>
               (case updateSoldCount product' (cartItem.quantity item) of
                  Inl e \<Rightarrow> (Some e, ps)
                | Inr saved \<Rightarrow>
                    sell_items populated (ps(cartItem.product item \<mapsto> saved)) rest)))"

definition complete_checkout :: "db \<Rightarrow> oid \<Rightarrow> string \<Rightarrow> string \<Rightarrow> response \<times> db" where
  "complete_checkout d userId paymentIntentId orderId =
     (if paymentIntentId = [] \<or> orderId = [] then (ValidationFailed, d)
      else case carts d userId of
        None \<Rightarrow> (EmptyCart, d)
      | Some cart \<Rightarrow>
          if cart.items cart = [] then (EmptyCart, d)
          else (case sell_items (products d) (products d) (cart.items cart) of
            (Some e, ps) \<Rightarrow> (ServerError, d\<lparr>products := ps\<rparr>)
          | (None, ps) \<Rightarrow>
              (case clearCart cart of
                 Inl e \<Rightarrow> (ServerError, d\<lparr>products := ps\<rparr>)
               | Inr cart' \<Rightarrow>
                   (Success, d\<lparr>products := ps, carts := (carts d)(userId \<mapsto> cart')\<rparr>))))"

subsection \<open>The orders router\<close>

text \<open>
  The orders router calls two methods on a product document,
  \<open>releaseReservedInventory(quantity)\<close> and \<open>updateInventory(quantity, operation)\<close>.
  Its handlers take them as the argument \<open>m\<close>: what the call does to the product, or
  the exception it ends in. \<open>Product_methods\<close> is what \<^verbatim>\<open>models/Product.js\<close> supplies:
  the schema defines the method \<open>updateSoldCount\<close> and the static \<open>getTrending\<close> and
  nothing else, so both members are \<open>undefined\<close> and calling them throws a TypeError.
\<close>

record inventory =
  releaseReservedInventory :: "product \<Rightarrow> int \<Rightarrow> exn + product"
  updateInventory :: "product \<Rightarrow> int \<Rightarrow> string \<Rightarrow> exn + product"

definition Product_methods :: inventory where
  "Product_methods =
     \<lparr>releaseReservedInventory = (\<lambda>this quantity'. Inl TypeError),
      updateInventory = (\<lambda>this quantity' operation. Inl TypeError)\<rparr>"

text \<open>
  The loop both the status handler and the cancel handler run over the lines of the
  order: a line whose product is gone is skipped, an exception ends the loop and
  leaves what was written.
\<close>

fun adjust_inventory ::
  "inventory \<Rightarrow> string \<Rightarrow> (oid \<rightharpoonup> product) \<Rightarrow> orderItem list \<Rightarrow> exn option \<times> (oid \<rightharpoonup> product)"
  where
  "adjust_inventory m operation ps [] = (None, ps)"
| "adjust_inventory m operation ps (item # rest) =
     (case ps (orderItem.product item) of
        None \<Rightarrow> adjust_inventory m operation ps rest
      | Some product' \<Rightarrow>
          (case releaseReservedInventory m product' (orderItem.quantity item) of
             Inl e \<Rightarrow> (Some e, ps)
           | Inr released \<Rightarrow>
               (case updateInventory m released (orderItem.quantity item) operation of
                  Inl e \<Rightarrow> (Some e, ps(orderItem.product item \<mapsto> released))
                | Inr updated \<Rightarrow>
                    adjust_inventory m operation
                      (ps(orderItem.product item \<mapsto> updated)) rest)))"

text \<open>The table \<open>validTransitions\<close> of \<open>PUT /api/orders/:id/status\<close>.\<close>

fun validTransitions :: "status \<Rightarrow> status list" where
  "validTransitions Pending = [Confirmed, Cancelled]"
| "validTransitions Confirmed = [Processing, Cancelled]"
| "validTransitions Processing = [Shipped, Cancelled]"
| "validTransitions Shipped = [Delivered, Returned]"
| "validTransitions Delivered = [Returned]"
| "validTransitions Cancelled = []"
| "validTransitions Refunded = []"
| "validTransitions Returned = [Refunded]"

text \<open>
  \<open>PUT /api/orders/:id/status\<close>. The validator trims the note and bounds its
  length; \<open>userId\<close> is \<open>req.user._id\<close>. After \<open>updateStatus\<close> has saved the order
  the handler evaluates \<open>order.populate(..).populate(..)\<close>. What the chained call does
  is the library's, and the sources do not say which version they run on: where
  \<open>Document.populate\<close> without a callback returns the document (Mongoose 5) the
  chain goes through; where it returns a promise (Mongoose 6 and later) the second
  \<open>.populate\<close> is not a function, the call throws and the \<open>catch\<close> answers 500 with
  the order written. The parameter \<open>chain\<close> is the exception of the chained call, if
  any.
\<close>

definition update_order_status ::
  "inventory \<Rightarrow> db \<Rightarrow> oid \<Rightarrow> oid \<Rightarrow> status \<Rightarrow> string \<Rightarrow> (nat \<Rightarrow> date) \<Rightarrow> string
     \<Rightarrow> exn option \<Rightarrow> response \<times> db" where
  "update_order_status m d userId i status' note clk num chain =
     (if length (trim note) > 500 then (ValidationFailed, d)
      else case findOrder d i of
        None \<Rightarrow> (OrderNotFound, d)
      | Some doc \<Rightarrow>
          if status' \<notin> set (validTransitions (order.status doc))
          then (InvalidStatusTransition, d)
          else
            (case (if status' = Cancelled \<and>
                      order.status doc \<in> set [Pending, Confirmed, Processing]
                   then adjust_inventory m ''add'' (products d) (order.items doc)
                   else if status' = Shipped \<and> order.status doc = Processing
                   then adjust_inventory m ''subtract'' (products d) (order.items doc)
                   else (None, products d)) of
               (Some e, ps) \<Rightarrow> (ServerError, d\<lparr>products := ps\<rparr>)
             | (None, ps) \<Rightarrow>
                 (case updateStatus doc status' (trim note) (Some userId) clk num of
                    Inl e \<Rightarrow> (ServerError, d\<lparr>products := ps\<rparr>)
                  | Inr doc' \<Rightarrow>
                      (case chain of
                         Some e \<Rightarrow>
                           (ServerError, d\<lparr>products := ps, orders := (orders d)(i \<mapsto> doc')\<rparr>)
                       | None \<Rightarrow>
                           (Success, d\<lparr>products := ps, orders := (orders d)(i \<mapsto> doc')\<rparr>)))))"

text \<open>
  \<open>POST /api/orders/:id/cancel\<close>. The query adds the owner unless the role of the
  requester is \<open>admin\<close>. The order is saved as cancelled first, the inventory loop
  runs after it.
\<close>

definition cancel_order ::
  "inventory \<Rightarrow> db \<Rightarrow> oid \<Rightarrow> string \<Rightarrow> oid \<Rightarrow> string \<Rightarrow> (nat \<Rightarrow> date) \<Rightarrow> string
     \<Rightarrow> response \<times> db" where
  "cancel_order m d userId role i reason' clk num =
     (if length (trim reason') > 500 then (ValidationFailed, d)
      else case findOrder d i of
        None \<Rightarrow> (OrderNotFound, d)
      | Some doc \<Rightarrow>
          if role \<noteq> ''admin'' \<and> order.user doc \<noteq> userId then (OrderNotFound, d)
          else if \<not> canBeCancelled doc then (CannotCancelOrder, d)
          else
            (case updateStatus doc Cancelled
                    (if trim reason' \<noteq> [] then trim reason' else ''Cancelled by user'')
                    (Some userId) clk num of
               Inl e \<Rightarrow> (ServerError, d)
             | Inr doc' \<Rightarrow>
                 (case adjust_inventory m ''add'' (products d) (order.items doc') of
                    (Some e, ps) \<Rightarrow>
                      (ServerError, d\<lparr>products := ps, orders := (orders d)(i \<mapsto> doc')\<rparr>)
                  | (None, ps) \<Rightarrow>
                      (Success, d\<lparr>products := ps, orders := (orders d)(i \<mapsto> doc')\<rparr>))))"

text \<open>
  \<open>POST /api/orders/:id/refund\<close>. The validators: the amount is a float that is at
  least 0, the reason is not empty, a refund id that is given is not empty once
  trimmed.
\<close>

definition refund_order ::
  "db \<Rightarrow> oid \<Rightarrow> rat \<Rightarrow> string \<Rightarrow> string option \<Rightarrow> (rat \<Rightarrow> string) \<Rightarrow> (nat \<Rightarrow> date) \<Rightarrow> string
     \<Rightarrow> response \<times> db" where
  "refund_order d i amount' reason' refundId' fmt clk num =
     (if amount' < 0 \<or> reason' = [] \<or> map_option trim refundId' = Some []
      then (ValidationFailed, d)
      else case findOrder d i of
        None \<Rightarrow> (OrderNotFound, d)
      | Some doc \<Rightarrow>
          if amount' > total doc then (InvalidRefundAmount, d)
          else
            (case processRefund doc amount' reason' (map_option trim refundId') fmt clk num of
               Inl e \<Rightarrow> (ServerError, d)
             | Inr doc' \<Rightarrow> (Success, d\<lparr>orders := (orders d)(i \<mapsto> doc')\<rparr>)))"

section \<open>Notions the properties are stated with\<close>

text \<open>
  The product and variant of a line, and the carts without two lines of one product
  and variant.
\<close>

definition line_key :: "cartItem \<Rightarrow> oid \<times> string \<times> psize" where
  "line_key item =
     (cartItem.product item, variant.colour (cartItem.variant item),
      variant.size' (cartItem.variant item))"

definition no_duplicate_lines :: "cart \<Rightarrow> bool" where
  "no_duplicate_lines c \<longleftrightarrow> distinct (map line_key (cart.items c))"

text \<open>The local \<open>discountAmount\<close> of \<open>calculateTotals\<close>, for a subtotal \<open>sub\<close>.\<close>

definition discountAmount :: "'a order_scheme \<Rightarrow> rat \<Rightarrow> rat" where
  "discountAmount this sub =
     (if discount.amount (discount this) > 0
      then (if type' (discount this) = Percentage
            then sub * (discount.amount (discount this) / 100)
            else discount.amount (discount this))
      else 0)"

text \<open>
  A line the checkout reports, and the entry of \<open>details\<close> it reports it with. (A line
  whose product is gone is not one: the loop throws on it.)
\<close>

definition unavailable :: "(oid \<rightharpoonup> product) \<Rightarrow> cartItem \<Rightarrow> bool" where
  "unavailable ps item \<longleftrightarrow>
     (case ps (cartItem.product item) of
        None \<Rightarrow> False
      | Some p \<Rightarrow> \<not> inStock p \<or> availableStock p < cartItem.quantity item)"

definition issue_of :: "(oid \<rightharpoonup> product) \<Rightarrow> cartItem \<Rightarrow> stockIssue" where
  "issue_of ps item =
     \<lparr>productName = product.name (the (ps (cartItem.product item))),
      stockIssue.variant = variant.colour (cartItem.variant item) @ ''/'' @
                           size_str (variant.size' (cartItem.variant item)),
      requested = cartItem.quantity item,
      available = availableStock (the (ps (cartItem.product item)))\<rparr>"

subsection \<open>Example documents\<close>

text \<open>
  The documents the concrete runs below start from: a product of the seed data with a
  given stock and number sold, a cart line of it, a cart, and an order of one line in a
  given status.
\<close>

definition a_product :: "int \<Rightarrow> int \<Rightarrow> product" where
  "a_product stock sold =
     \<lparr>product.name = ''Premium Black T-Shirt'', product.price = 2999 / 100,
      product.colour = ''black'', product.size' = Md, inStock = (stock - sold > 0),
      totalStock = stock, soldCount = sold, isActive = True\<rparr>"

definition a_line :: "oid \<Rightarrow> int \<Rightarrow> cartItem" where
  "a_line productId q =
     \<lparr>id' = ''line-'' @ productId, cartItem.product = productId, cartItem.quantity = q,
      cartItem.variant = \<lparr>variant.colour = ''black'', variant.size' = Md\<rparr>,
      cartItem.price = 2999 / 100\<rparr>"

definition a_cart :: "oid \<Rightarrow> cartItem list \<Rightarrow> cart" where
  "a_cart userId lines = cart_pre_save \<lparr>cart.user = userId, cart.items = lines,
                                         totalAmount = 0, totalItems = 0\<rparr>"

definition an_order :: "status \<Rightarrow> order" where
  "an_order s =
     \<lparr>orderNumber = ''ORD12345678AB12'', order.user = ''u1'',
      order.items = [\<lparr>orderItem.product = ''p1'', orderItem.name = ''Premium Black T-Shirt'',
                      orderItem.price = 20, orderItem.quantity = 2, image = ''a.jpg'',
                      sku = ''TS-BLK-MD''\<rparr>],
      subtotal = 40, tax = 4, taxRate = 1 / 10, shippingCost = 5,
      discount = \<lparr>discount.amount = 0, code = [], type' = Fixed\<rparr>, total = 49,
      paymentInfo = None, order.status = s,
      statusHistory = [\<lparr>historyEntry.status = Pending, date = 1000,
                         note' = ''Order created'', updatedBy = None\<rparr>],
      confirmedAt = None, shippedAt = None, deliveredAt = None, cancelledAt = None,
      refund = None, isNew = False\<rparr>"

section \<open>Cart: the totals are recomputed on every save\<close>

lemma foldl_add_sum_list:
  fixes f :: "'a \<Rightarrow> 'b::comm_monoid_add"
  shows "foldl (\<lambda>total x. total + f x) a xs = a + sum_list (map f xs)"
  by (induction xs arbitrary: a) (simp_all add: add.assoc)

lemma cart_save_totals:
  assumes "cart_save c = Inr c'"
  shows "cart.items c' = cart.items c"
    and "totalItems c' = (\<Sum>item\<leftarrow>cart.items c'. cartItem.quantity item)"
    and "totalAmount c' =
           (\<Sum>item\<leftarrow>cart.items c'. cartItem.price item * of_int (cartItem.quantity item))"
  using assms
  by (auto simp: cart_save_def cart_pre_save_def foldl_add_sum_list split: if_splits)

lemma cart_add_saved:
  assumes "cart_add d u rawId rawQuantity col sz newId = (Success, d')"
  shows "\<exists>c c'. cart_save c = Inr c' \<and> carts d' u = Some c'"
  using assms
  by (auto simp: cart_add_def Let_def split: if_splits option.splits sum.splits)

text \<open>
  Claim C9. Whatever mutation saved the cart (\<open>addItem\<close>, \<open>updateItemQuantity\<close>,
  \<open>removeItem\<close>, \<open>clearCart\<close>, or the handler of \<open>POST /api/cart/add\<close>, whatever
  the id and the quantity of the request were sent as), the saved
  cart has \<open>totalItems\<close> equal to the sum of the quantities of its lines and
  \<open>totalAmount\<close> equal to the sum of price times quantity over its lines.
\<close>

theorem cart_mutation_recomputes_totals:
  assumes "addItem c productId q v p newId = Inr c' \<or>
           updateItemQuantity c itemId q = Inr c' \<or>
           removeItem c itemId = Inr c' \<or>
           clearCart c = Inr c' \<or>
           (cart_add d u rawId rawQuantity col sz newId = (Success, d') \<and>
            carts d' u = Some c')"
  shows "totalItems c' = (\<Sum>item\<leftarrow>cart.items c'. cartItem.quantity item) \<and>
         totalAmount c' =
           (\<Sum>item\<leftarrow>cart.items c'. cartItem.price item * of_int (cartItem.quantity item))"
proof -
  have "\<exists>c0. cart_save c0 = Inr c'"
    using assms cart_add_saved[of d u rawId rawQuantity col sz newId d']
    by (auto simp: addItem_def updateItemQuantity_def removeItem_def clearCart_def
             split: option.splits if_splits)
  then show ?thesis
    using cart_save_totals(2,3) by blast
qed

theorem cart_mutation_recomputes_totals_witness:
  "addItem
     \<lparr>cart.user = ''u1'',
      cart.items = [\<lparr>id' = ''i1'', cartItem.product = ''p1'', cartItem.quantity = 1,
                     cartItem.variant = \<lparr>variant.colour = ''black'', variant.size' = Md\<rparr>,
                     cartItem.price = 5 / 2\<rparr>],
      totalAmount = 5 / 2, totalItems = 1\<rparr>
     ''p2'' 2 \<lparr>variant.colour = ''white'', variant.size' = Lg\<rparr> 3 ''i2''
   = Inr \<lparr>cart.user = ''u1'',
      cart.items = [\<lparr>id' = ''i1'', cartItem.product = ''p1'', cartItem.quantity = 1,
                     cartItem.variant = \<lparr>variant.colour = ''black'', variant.size' = Md\<rparr>,
                     cartItem.price = 5 / 2\<rparr>,
                    \<lparr>id' = ''i2'', cartItem.product = ''p2'', cartItem.quantity = 2,
                     cartItem.variant = \<lparr>variant.colour = ''white'', variant.size' = Lg\<rparr>,
                     cartItem.price = 3\<rparr>],
      totalAmount = 17 / 2, totalItems = 3\<rparr>"
proof -
  let ?c0 = "\<lparr>cart.user = ''u1'',
      cart.items = [\<lparr>id' = ''i1'', cartItem.product = ''p1'', cartItem.quantity = 1,
                     cartItem.variant = \<lparr>variant.colour = ''black'', variant.size' = Md\<rparr>,
                     cartItem.price = 5 / 2\<rparr>],
      totalAmount = 5 / 2, totalItems = 1\<rparr>"
  let ?v = "\<lparr>variant.colour = ''white'', variant.size' = Lg\<rparr>"
  obtain c' where e: "addItem ?c0 ''p2'' 2 ?v 3 ''i2'' = Inr c'"
    by (simp add: addItem_def same_variant_def cart_save_def cart_validate_def)
  have i: "cart.items c' = cart.items ?c0 @
             [\<lparr>id' = ''i2'', cartItem.product = ''p2'', cartItem.quantity = 2,
               cartItem.variant = ?v, cartItem.price = 3\<rparr>]" and u: "cart.user c' = ''u1''"
    using e by (auto simp: addItem_def same_variant_def cart_save_def cart_validate_def cart_pre_save_def)
  have "totalItems c' = 3 \<and> totalAmount c' = 17 / 2"
    using cart_mutation_recomputes_totals[OF disjI1[OF e]] i
    by simp
  then have "c' = \<lparr>cart.user = ''u1'', cart.items = cart.items c', totalAmount = 17 / 2, totalItems = 3\<rparr>"
    using u by (cases c') simp
  then show ?thesis using e i by simp
qed


section \<open>Cart: one line per product and variant\<close>

lemma same_variant_key:
  "same_variant productId v item \<longleftrightarrow>
     line_key item = (productId, variant.colour v, variant.size' v)"
  by (auto simp: same_variant_def line_key_def)

lemma findIndex_None: "findIndex P xs = None \<longleftrightarrow> (\<forall>x\<in>set xs. \<not> P x)"
  by (induction xs) auto

lemma findIndex_Some:
  "findIndex P xs = Some i \<Longrightarrow> i < length xs \<and> P (xs ! i)"
  by (induction xs arbitrary: i) (auto split: if_splits)

lemma cart_save_Inr:
  "cart_save c = Inr c' \<longleftrightarrow> cart_validate c \<and> c' = cart_pre_save c"
  by (auto simp: cart_save_def)

lemma items_pre_save [simp]: "cart.items (cart_pre_save c) = cart.items c"
  by (simp add: cart_pre_save_def)

lemma validate_pre_save [simp]: "cart_validate (cart_pre_save c) = cart_validate c"
  by (simp add: cart_validate_def)

lemma no_dup_pre_save [simp]: "no_duplicate_lines (cart_pre_save c) = no_duplicate_lines c"
  by (simp add: no_duplicate_lines_def)

text \<open>
  A request to \<open>POST /api/cart/add\<close> whose id is written as the database writes it
  (lower case) and whose quantity is a JSON number does what \<open>addItem\<close> does.
\<close>

lemma cart_add_is_addItem:
  assumes "cart_add d u productId (Num q) col sz newId = (Success, d')" "carts d' u = Some c'"
    and "castObjectId productId = Some productId"
  shows "\<exists>p. products d productId = Some p \<and> 1 \<le> q \<and> col \<noteq> [] \<and>
           addItem (case carts d u of Some c \<Rightarrow> c
                    | None \<Rightarrow> \<lparr>cart.user = u, cart.items = [], totalAmount = 0, totalItems = 0\<rparr>)
             productId q \<lparr>variant.colour = col, variant.size' = sz\<rparr> (product.price p) newId = Inr c'"
  using assms
  by (auto simp: cart_add_def addItem_def Let_def isInt_min1_def castNumber_def js_greater_def
           split: if_splits option.splits sum.splits)

lemma map_key_update:
  "i < length xs \<Longrightarrow> line_key y = line_key (xs ! i) \<Longrightarrow> map line_key (xs[i := y]) = map line_key xs"
  by (simp add: map_update list_update_same_conv)

lemma line_key_quantity [simp]: "line_key (item\<lparr>cartItem.quantity := q\<rparr>) = line_key item"
  by (simp add: line_key_def)

lemma list_all_update:
  "list_all P xs \<Longrightarrow> P y \<Longrightarrow> list_all P (xs[i := y])"
  by (induction xs arbitrary: i) (auto split: nat.splits)

lemma merge_line:
  assumes "findIndex (\<lambda>x. k x = key) xs = Some i" "distinct (map k xs)" "k y = key"
  shows "filter (\<lambda>x. k x = key) xs = [xs ! i] \<and> filter (\<lambda>x. k x = key) (xs[i := y]) = [y]"
  using assms(1,2)
proof (induction xs arbitrary: i)
  case Nil
  then show ?case by simp
next
  case (Cons x xs)
  show ?case
  proof (cases "k x = key")
    case True
    then have i: "i = 0" using Cons.prems by simp
    have "\<forall>z\<in>set xs. k z \<noteq> key"
      using Cons.prems(2) True by (auto simp: image_iff)
    then have "filter (\<lambda>x. k x = key) xs = []" by (simp add: filter_empty_conv)
    then show ?thesis using True i assms(3) by simp
  next
    case False
    then obtain j where j: "i = Suc j" "findIndex (\<lambda>x. k x = key) xs = Some j"
      using Cons.prems by (auto split: if_splits)
    then show ?thesis using Cons.IH[of j] Cons.prems(2) False by simp
  qed
qed

lemma same_variant_eq:
  "same_variant productId v = (\<lambda>item. line_key item = (productId, variant.colour v, variant.size' v))"
  by (rule ext) (simp add: same_variant_key)

lemma addItem_merges:
  assumes "cart_validate c" "no_duplicate_lines c" "1 \<le> q" "variant.colour v \<noteq> []"
  shows "\<exists>c' line. addItem c productId q v p newId = Inr c' \<and> cart_validate c' \<and>
           no_duplicate_lines c' \<and>
           filter (same_variant productId v) (cart.items c') = [line] \<and>
           cartItem.quantity line =
             (\<Sum>l\<leftarrow>filter (same_variant productId v) (cart.items c). cartItem.quantity l) + q"
proof (cases "findIndex (same_variant productId v) (cart.items c)")
  case None
  let ?new = "\<lparr>id' = newId, cartItem.product = productId, cartItem.quantity = q,
               cartItem.variant = v, cartItem.price = p\<rparr>"
  have none: "\<forall>x\<in>set (cart.items c). \<not> same_variant productId v x"
    using None by (simp add: findIndex_None)
  then have f: "filter (same_variant productId v) (cart.items c) = []"
    by (simp add: filter_empty_conv)
  have new: "same_variant productId v ?new" by (simp add: same_variant_def)
  have key: "line_key ?new \<notin> set (map line_key (cart.items c))"
    using none new by (auto simp: same_variant_key)
  let ?c1 = "c\<lparr>cart.items := cart.items c @ [?new]\<rparr>"
  have v1: "cart_validate ?c1" using assms(1,3,4) by (simp add: cart_validate_def)
  have d1: "no_duplicate_lines ?c1" using assms(2) key by (simp add: no_duplicate_lines_def)
  have "addItem c productId q v p newId = Inr (cart_pre_save ?c1)"
    using None v1 by (simp add: addItem_def cart_save_def)
  moreover have "filter (same_variant productId v) (cart.items (cart_pre_save ?c1)) = [?new]"
    using f new by simp
  ultimately show ?thesis using v1 d1 f by auto
next
  case (Some i)
  let ?old = "cart.items c ! i"
  let ?upd = "?old\<lparr>cartItem.quantity := cartItem.quantity ?old + q\<rparr>"
  let ?c1 = "c\<lparr>cart.items := (cart.items c)[i := ?upd]\<rparr>"
  have i: "i < length (cart.items c)" "same_variant productId v ?old"
    using findIndex_Some[OF Some] by auto
  have old_ok: "1 \<le> cartItem.quantity ?old" "variant.colour (cartItem.variant ?old) \<noteq> []"
    using assms(1) i(1) by (simp_all add: cart_validate_def list_all_length)
  have v1: "cart_validate ?c1"
    using assms(1,3) old_ok by (simp add: cart_validate_def list_all_update)
  have d1: "no_duplicate_lines ?c1"
    using assms(2) i(1) by (simp add: no_duplicate_lines_def map_key_update)
  have m: "filter (same_variant productId v) (cart.items c) = [?old] \<and>
           filter (same_variant productId v) ((cart.items c)[i := ?upd]) = [?upd]"
    unfolding same_variant_eq
    by (rule merge_line)
       (use Some assms(2) i(2) in \<open>auto simp: no_duplicate_lines_def same_variant_eq\<close>)
  have "addItem c productId q v p newId = Inr (cart_pre_save ?c1)"
    using Some v1 by (simp add: addItem_def cart_save_def)
  then show ?thesis using v1 d1 m by auto
qed

lemma filter_keeps_invariant:
  assumes "cart_validate c" "no_duplicate_lines c"
  shows "cart_validate (c\<lparr>cart.items := filter P (cart.items c)\<rparr>) \<and>
         no_duplicate_lines (c\<lparr>cart.items := filter P (cart.items c)\<rparr>)"
  using assms
  by (auto simp: cart_validate_def no_duplicate_lines_def list_all_iff distinct_map_filter)

lemma set_quantity_keeps_invariant:
  assumes "cart_validate c" "no_duplicate_lines c" "i < length (cart.items c)" "1 \<le> q"
  shows "cart_validate (c\<lparr>cart.items := (cart.items c)[i := (cart.items c ! i)\<lparr>cartItem.quantity := q\<rparr>]\<rparr>) \<and>
         no_duplicate_lines (c\<lparr>cart.items := (cart.items c)[i := (cart.items c ! i)\<lparr>cartItem.quantity := q\<rparr>]\<rparr>)"
proof -
  have "variant.colour (cartItem.variant (cart.items c ! i)) \<noteq> []"
    using assms(1,3) by (simp add: cart_validate_def list_all_length)
  then show ?thesis
    using assms
    by (simp add: cart_validate_def no_duplicate_lines_def list_all_update map_key_update)
qed

lemma addItem_keeps_invariant:
  assumes "cart_validate c" "no_duplicate_lines c" "addItem c productId q v p newId = Inr c'"
  shows "cart_validate c' \<and> no_duplicate_lines c'"
proof (cases "findIndex (same_variant productId v) (cart.items c)")
  case None
  then have "\<forall>x\<in>set (cart.items c). \<not> same_variant productId v x"
    by (simp add: findIndex_None)
  then have "(productId, variant.colour v, variant.size' v) \<notin> set (map line_key (cart.items c))"
    by (auto simp: same_variant_key)
  then show ?thesis
    using assms None
    by (auto simp: addItem_def cart_save_Inr no_duplicate_lines_def line_key_def)
next
  case (Some i)
  then have "i < length (cart.items c)" using findIndex_Some by blast
  then show ?thesis
    using assms Some
    by (auto simp: addItem_def cart_save_Inr no_duplicate_lines_def map_key_update)
qed

lemma updateItemQuantity_keeps_invariant:
  assumes "cart_validate c" "no_duplicate_lines c" "updateItemQuantity c itemId q = Inr c'"
  shows "cart_validate c' \<and> no_duplicate_lines c'"
proof (cases "findIndex (\<lambda>item. id' item = itemId) (cart.items c)")
  case None
  then have "c' = cart_pre_save c"
    using assms(3) by (simp add: updateItemQuantity_def cart_save_Inr)
  then show ?thesis using assms(1,2) by simp
next
  case (Some i)
  then have i: "i < length (cart.items c)" using findIndex_Some by blast
  show ?thesis
  proof (cases "q \<le> 0")
    case True
    then have "c' = cart_pre_save (c\<lparr>cart.items := filter (\<lambda>item. id' item \<noteq> itemId) (cart.items c)\<rparr>)"
      using assms(3) Some by (simp add: updateItemQuantity_def cart_save_Inr)
    then show ?thesis using filter_keeps_invariant[OF assms(1,2)] by simp
  next
    case False
    then have "c' = cart_pre_save (c\<lparr>cart.items :=
                 (cart.items c)[i := (cart.items c ! i)\<lparr>cartItem.quantity := q\<rparr>]\<rparr>)"
      using assms(3) Some by (simp add: updateItemQuantity_def cart_save_Inr)
    moreover have "1 \<le> q" using False by simp
    ultimately show ?thesis using set_quantity_keeps_invariant[OF assms(1,2) i] by simp
  qed
qed

lemma removeItem_keeps_invariant:
  assumes "cart_validate c" "no_duplicate_lines c" "removeItem c itemId = Inr c'"
  shows "cart_validate c' \<and> no_duplicate_lines c'"
proof -
  have "c' = cart_pre_save (c\<lparr>cart.items := filter (\<lambda>item. id' item \<noteq> itemId) (cart.items c)\<rparr>)"
    using assms(3) by (simp add: removeItem_def cart_save_Inr)
  then show ?thesis using filter_keeps_invariant[OF assms(1,2)] by simp
qed

lemma clearCart_keeps_invariant:
  assumes "clearCart c = Inr c'"
  shows "cart_validate c' \<and> no_duplicate_lines c'"
proof -
  have "c' = cart_pre_save (c\<lparr>cart.items := []\<rparr>)"
    using assms by (simp add: clearCart_def cart_save_Inr)
  then show ?thesis by (simp add: cart_validate_def no_duplicate_lines_def)
qed

lemma new_cart_invariant:
  "cart_validate \<lparr>cart.user = u, cart.items = [], totalAmount = 0, totalItems = 0\<rparr> \<and>
   no_duplicate_lines \<lparr>cart.user = u, cart.items = [], totalAmount = 0, totalItems = 0\<rparr>"
  by (simp add: cart_validate_def no_duplicate_lines_def)

text \<open>
  Two requests to \<open>POST /api/cart/add\<close> for one product and variant that both
  succeed, the id written in lower case and the quantities sent as numbers, on a stored
  cart that is valid and has no two lines of one product and variant: they leave one
  line of that product and variant, with the sum.
\<close>

lemma cart_add_twice_merges:
  assumes "case carts d u of None \<Rightarrow> True | Some c \<Rightarrow> cart_validate c \<and> no_duplicate_lines c"
    and "castObjectId productId = Some productId"
    and "cart_add d u productId (Num a) col sz id1 = (Success, d1)"
    and "cart_add d1 u productId (Num b) col sz id2 = (Success, d2)"
  shows "\<exists>c2 line. carts d2 u = Some c2 \<and>
           filter (same_variant productId \<lparr>variant.colour = col, variant.size' = sz\<rparr>)
             (cart.items c2) = [line] \<and>
           cartItem.quantity line =
             (case carts d u of
                None \<Rightarrow> 0
              | Some c \<Rightarrow>
                  (\<Sum>l\<leftarrow>filter (same_variant productId \<lparr>variant.colour = col, variant.size' = sz\<rparr>)
                        (cart.items c). cartItem.quantity l)) + a + b"
proof -
  let ?v = "\<lparr>variant.colour = col, variant.size' = sz\<rparr>"
  let ?c0 = "case carts d u of Some c \<Rightarrow> c
             | None \<Rightarrow> \<lparr>cart.user = u, cart.items = [], totalAmount = 0, totalItems = 0\<rparr>"
  have inv0: "cart_validate ?c0 \<and> no_duplicate_lines ?c0"
    using assms(1) new_cart_invariant by (cases "carts d u") auto
  have sum0: "(\<Sum>l\<leftarrow>filter (same_variant productId ?v) (cart.items ?c0). cartItem.quantity l) =
              (case carts d u of
                 None \<Rightarrow> 0
               | Some c \<Rightarrow> (\<Sum>l\<leftarrow>filter (same_variant productId ?v) (cart.items c).
                               cartItem.quantity l))"
    by (cases "carts d u") auto
  obtain c1 where c1: "carts d1 u = Some c1"
    using cart_add_saved[OF assms(3)] by blast
  obtain p1 :: product where a1: "1 \<le> a" "col \<noteq> []"
      "addItem ?c0 productId a ?v (product.price p1) id1 = Inr c1"
    using cart_add_is_addItem[OF assms(3) c1 assms(2)] by blast
  obtain l1 where m1: "cart_validate c1" "no_duplicate_lines c1"
      "filter (same_variant productId ?v) (cart.items c1) = [l1]"
      "cartItem.quantity l1 =
         (\<Sum>l\<leftarrow>filter (same_variant productId ?v) (cart.items ?c0). cartItem.quantity l) + a"
    using addItem_merges[of ?c0 a ?v productId "product.price p1" id1] inv0 a1 by auto
  obtain c2 where c2: "carts d2 u = Some c2"
    using cart_add_saved[OF assms(4)] by blast
  obtain p2 :: product where a2: "1 \<le> b"
      "addItem c1 productId b ?v (product.price p2) id2 = Inr c2"
    using cart_add_is_addItem[OF assms(4) c2 assms(2)] c1 by auto
  obtain l2 where m2: "filter (same_variant productId ?v) (cart.items c2) = [l2]"
      "cartItem.quantity l2 =
         (\<Sum>l\<leftarrow>filter (same_variant productId ?v) (cart.items c1). cartItem.quantity l) + b"
    using addItem_merges[of c1 b ?v productId "product.price p2" id2] m1(1,2) a2 a1(2) by auto
  show ?thesis
    using c2 m2 m1(3,4) sum0 by simp
qed

text \<open>
  Claim C7 (the code breaks it). A product has 20 in stock, and a user with no cart adds
  1 of it, black and \<open>md\<close>, with \<open>POST /api/cart/add\<close>. When the same request is sent
  again with the id of the product written in upper case, it succeeds and the cart
  holds two lines of that product and variant: the query for the product casts the id,
  the search for the line compares \<open>item.product.toString()\<close>, which is in lower case,
  with the string as it was sent. When instead the request is sent again with the
  quantity as the string \<open>"1"\<close>, it succeeds and the one line holds 11, not 2:
  \<open>isInt\<close> lets the string through as it is, and \<open>1 + "1"\<close> is \<open>"11"\<close>, which the
  assignment to the line casts to 11.
\<close>

theorem cart_add_breaks_merge:
  "(let d0 = \<lparr>products = [''507f1f77bcf86cd799439abc'' \<mapsto> a_product 20 0],
               carts = Map.empty, orders = Map.empty\<rparr>;
        r1 = cart_add d0 ''u1'' ''507f1f77bcf86cd799439abc'' (Num 1) ''black'' Md ''i1'';
        r2 = cart_add (snd r1) ''u1'' ''507F1F77BCF86CD799439ABC'' (Num 1) ''black'' Md ''i2'';
        r3 = cart_add (snd r1) ''u1'' ''507f1f77bcf86cd799439abc'' (Str ''1'') ''black'' Md ''i3''
    in fst r1 = Success \<and> fst r2 = Success \<and> fst r3 = Success \<and>
       map_option (\<lambda>c. map line_key (cart.items c)) (carts (snd r1) ''u1'') =
         Some [(''507f1f77bcf86cd799439abc'', ''black'', Md)] \<and>
       map_option (\<lambda>c. map cartItem.quantity (cart.items c)) (carts (snd r1) ''u1'') = Some [1] \<and>
       map_option (\<lambda>c. map line_key (cart.items c)) (carts (snd r2) ''u1'') =
         Some [(''507f1f77bcf86cd799439abc'', ''black'', Md),
               (''507f1f77bcf86cd799439abc'', ''black'', Md)] \<and>
       map_option (\<lambda>c. map line_key (cart.items c)) (carts (snd r3) ''u1'') =
         Some [(''507f1f77bcf86cd799439abc'', ''black'', Md)] \<and>
       map_option (\<lambda>c. map cartItem.quantity (cart.items c)) (carts (snd r3) ''u1'') = Some [11])"
  by (simp add: Let_def cart_add_def isMongoId_def castObjectId_def is_hex_def lower_hex_def
        isInt_min1_def is_digit_def to_number_def digits_val_def digit_val_def js_less_def
        js_greater_def castNumber_def str_of_int_def str_of_nat.simps digit_char_def
        char_of_def bit_Suc_0_iff a_product_def availableStock_def same_variant_def line_key_def
        cart_save_def cart_validate_def cart_pre_save_def)

theorem cart_add_breaks_merge_witness:
  "\<exists>c. carts
          (snd (cart_add
             (snd (cart_add
                \<lparr>products = [''507f1f77bcf86cd799439abc'' \<mapsto> a_product 20 0],
                 carts = Map.empty, orders = Map.empty\<rparr>
                ''u1'' ''507f1f77bcf86cd799439abc'' (Num 1) ''black'' Md ''i1''))
             ''u1'' ''507F1F77BCF86CD799439ABC'' (Num 1) ''black'' Md ''i2''))
          ''u1'' = Some c \<and>
       \<not> no_duplicate_lines c"
  using cart_add_breaks_merge
  by (auto simp: Let_def no_duplicate_lines_def)

section \<open>Order: the totals\<close>

lemma calculateTotals_closed:
  "calculateTotals this =
     (let s = (\<Sum>item\<leftarrow>order.items this. orderItem.price item * of_int (orderItem.quantity item));
          t = max 0 (s + s * taxRate this + shippingCost this - discountAmount this s)
      in this\<lparr>subtotal := s, tax := s * taxRate this, total := t,
               paymentInfo := map_option (\<lambda>p. p\<lparr>paymentInfo.amount := t\<rparr>) (paymentInfo this)\<rparr>)"
  unfolding calculateTotals_def Let_def discountAmount_def foldl_add_sum_list
  by (cases "paymentInfo this") simp_all

lemma calculateTotals_fields:
  "order.items (calculateTotals this) = order.items this"
  "taxRate (calculateTotals this) = taxRate this"
  "shippingCost (calculateTotals this) = shippingCost this"
  "discount (calculateTotals this) = discount this"
  "subtotal (calculateTotals this) =
     (\<Sum>item\<leftarrow>order.items this. orderItem.price item * of_int (orderItem.quantity item))"
  "tax (calculateTotals this) = subtotal (calculateTotals this) * taxRate this"
  "total (calculateTotals this) =
     max 0 (subtotal (calculateTotals this) + tax (calculateTotals this) + shippingCost this -
            discountAmount this (subtotal (calculateTotals this)))"
  "paymentInfo (calculateTotals this) =
     map_option (\<lambda>p. p\<lparr>paymentInfo.amount := total (calculateTotals this)\<rparr>) (paymentInfo this)"
  by (simp_all add: calculateTotals_closed Let_def)

lemma discountAmount_cong:
  "discount a = discount b \<Longrightarrow> discountAmount a s = discountAmount b s"
  by (simp add: discountAmount_def)

lemma calculateTotals_idem: "calculateTotals (calculateTotals this) = calculateTotals this"
proof -
  let ?c = "calculateTotals this"
  have d: "discountAmount ?c (subtotal ?c) = discountAmount this (subtotal ?c)"
    by (rule discountAmount_cong) (simp add: calculateTotals_fields(4))
  have t: "max 0 (subtotal ?c + subtotal ?c * taxRate ?c + shippingCost ?c -
                  discountAmount ?c (subtotal ?c)) = total ?c"
    using calculateTotals_fields(2,3,6,7)[of this] d by simp
  have p: "map_option (\<lambda>p. p\<lparr>paymentInfo.amount := total ?c\<rparr>) (paymentInfo ?c) = paymentInfo ?c"
    by (cases "paymentInfo this") (simp_all add: calculateTotals_fields(8))
  have "calculateTotals ?c =
          ?c\<lparr>subtotal := subtotal ?c, tax := subtotal ?c * taxRate ?c, total := total ?c,
              paymentInfo := paymentInfo ?c\<rparr>"
    using calculateTotals_closed[of ?c] t p
    by (simp add: Let_def calculateTotals_fields(1,5))
  also have "\<dots> = ?c"
    using calculateTotals_fields(2,6)[of this] by simp
  finally show ?thesis .
qed

text \<open>
  Claim C6. \<open>calculateTotals\<close> sets the subtotal to the sum of price times quantity
  over the lines, the tax to subtotal times tax rate, and the total to
  subtotal + tax + shippingCost - discountAmount, or 0 if that is negative; the
  discount amount is the percentage of the subtotal or the fixed amount of the discount
  record (0 if its amount is not positive). Calling it a second time changes nothing:
  the order, and so its total, is what the first call left.
\<close>

theorem calculateTotals_total_idempotent:
  "subtotal (calculateTotals this) =
     (\<Sum>item\<leftarrow>order.items this. orderItem.price item * of_int (orderItem.quantity item)) \<and>
   tax (calculateTotals this) = subtotal (calculateTotals this) * taxRate this \<and>
   total (calculateTotals this) =
     max 0 (subtotal (calculateTotals this) + tax (calculateTotals this) +
            shippingCost (calculateTotals this) -
            (if discount.amount (discount this) > 0
             then (if type' (discount this) = Percentage
                   then subtotal (calculateTotals this) * (discount.amount (discount this) / 100)
                   else discount.amount (discount this))
             else 0)) \<and>
   0 \<le> total (calculateTotals this) \<and>
   calculateTotals (calculateTotals this) = calculateTotals this"
  using calculateTotals_fields(3,5,6,7)[of this] calculateTotals_idem[of this]
  by (simp add: discountAmount_def)

section \<open>Order: every status change is recorded\<close>

lemma order_validate_frame [simp]:
  "order_validate (this\<lparr>order.status := s\<rparr>) = order_validate this"
  "order_validate (this\<lparr>statusHistory := h\<rparr>) = order_validate this"
  "order_validate (this\<lparr>confirmedAt := a\<rparr>) = order_validate this"
  "order_validate (this\<lparr>shippedAt := a\<rparr>) = order_validate this"
  "order_validate (this\<lparr>deliveredAt := a\<rparr>) = order_validate this"
  "order_validate (this\<lparr>cancelledAt := a\<rparr>) = order_validate this"
  "order_validate (this\<lparr>isNew := b\<rparr>) = order_validate this"
  by (simp_all add: order_validate_def)

lemma order_validate_refund:
  "order_validate (this\<lparr>refund := Some r\<rparr>) \<longleftrightarrow>
     order_validate (this\<lparr>refund := None\<rparr>) \<and> 0 \<le> refund.amount r"
  "order_validate this \<Longrightarrow> order_validate (this\<lparr>refund := None\<rparr>)"
  by (auto simp: order_validate_def)

lemma order_save_stored:
  "order_validate this \<Longrightarrow> \<not> isNew this \<Longrightarrow> order_save this num t = Inr this"
  by (simp add: order_save_def order_pre_save_def)

lemma trim_Order_created: "trim ''Order created'' = ''Order created''"
  by (simp add: trim_def is_space_def)

lemma order_save_new:
  "order_validate this \<Longrightarrow> isNew this \<Longrightarrow>
   order_save this num t =
     Inr (this\<lparr>orderNumber := num,
               statusHistory := statusHistory this @
                 [\<lparr>historyEntry.status = order.status this, date = t,
                   note' = ''Order created'', updatedBy = None\<rparr>],
               isNew := False\<rparr>)"
  by (simp add: order_save_def order_pre_save_def trim_Order_created)

lemma updateStatus_stored:
  assumes "order_validate this" "\<not> isNew this"
  shows "updateStatus this newStatus note actor clk num =
     Inr (this\<lparr>order.status := newStatus,
               statusHistory := statusHistory this @
                 [\<lparr>historyEntry.status = newStatus, date = clk 0,
                   note' = trim (if note \<noteq> [] then note
                                 else ''Status changed from '' @ status_str (order.status this) @
                                      '' to '' @ status_str newStatus),
                   updatedBy = actor\<rparr>],
               confirmedAt := (if newStatus = Confirmed then Some (clk 1) else confirmedAt this),
               shippedAt := (if newStatus = Shipped then Some (clk 1) else shippedAt this),
               deliveredAt := (if newStatus = Delivered then Some (clk 1) else deliveredAt this),
               cancelledAt := (if newStatus = Cancelled then Some (clk 1) else cancelledAt this)\<rparr>)"
  using assms
  by (cases newStatus) (simp_all add: updateStatus_def Let_def order_save_stored)


lemma an_order_valid: "order_validate (an_order s)"
  by (simp add: an_order_def order_validate_def)

lemma an_order_fields [simp]:
  "order.status (an_order s) = s" "isNew (an_order s) = False"
  "order.user (an_order s) = ''u1''"
  "order.items (an_order s) =
     [\<lparr>orderItem.product = ''p1'', orderItem.name = ''Premium Black T-Shirt'',
       orderItem.price = 20, orderItem.quantity = 2, image = ''a.jpg'', sku = ''TS-BLK-MD''\<rparr>]"
  "total (an_order s) = 49"
  by (simp_all add: an_order_def)

text \<open>
  Claim C8. On a stored order that passes its validators, \<open>updateStatus\<close> saves the
  order with the new status, with one entry appended to the status history (the new
  status, the time, the note, trimmed, or the generated note when none is given, and
  the acting user) and nothing else of the history changed, and with the date field of
  the new status set (\<open>confirmedAt\<close>, \<open>shippedAt\<close>, \<open>deliveredAt\<close>, \<open>cancelledAt\<close>; the
  other three keep their value, and a status without a date field sets none). The first
  save of a new order appends the entry of its creation.
\<close>

theorem status_change_recorded:
  assumes "order_validate this"
  shows "(\<not> isNew this \<longrightarrow>
           (\<exists>saved. updateStatus this newStatus note actor clk num = Inr saved \<and>
              order.status saved = newStatus \<and>
              statusHistory saved = statusHistory this @
                [\<lparr>historyEntry.status = newStatus, date = clk 0,
                  note' = trim (if note \<noteq> [] then note
                                else ''Status changed from '' @ status_str (order.status this) @
                                     '' to '' @ status_str newStatus),
                  updatedBy = actor\<rparr>] \<and>
              confirmedAt saved = (if newStatus = Confirmed then Some (clk 1) else confirmedAt this) \<and>
              shippedAt saved = (if newStatus = Shipped then Some (clk 1) else shippedAt this) \<and>
              deliveredAt saved = (if newStatus = Delivered then Some (clk 1) else deliveredAt this) \<and>
              cancelledAt saved = (if newStatus = Cancelled then Some (clk 1) else cancelledAt this))) \<and>
         (isNew this \<longrightarrow>
           (\<exists>saved. order_save this num t = Inr saved \<and> \<not> isNew saved \<and>
              statusHistory saved = statusHistory this @
                [\<lparr>historyEntry.status = order.status this, date = t,
                  note' = ''Order created'', updatedBy = None\<rparr>]))"
  using assms updateStatus_stored[OF assms, of newStatus "note" actor clk num]
    order_save_new[OF assms, of num t]
  by simp

theorem status_change_recorded_witness:
  "(\<exists>saved.
      updateStatus (an_order Pending) Confirmed ''paid'' (Some ''admin1'') (\<lambda>n. 2000 + n)
        ''ORD00000000XXXX'' = Inr saved \<and>
      order.status saved = Confirmed \<and>
      statusHistory saved =
        [\<lparr>historyEntry.status = Pending, date = 1000, note' = ''Order created'',
          updatedBy = None\<rparr>,
         \<lparr>historyEntry.status = Confirmed, date = 2000, note' = ''paid'',
          updatedBy = Some ''admin1''\<rparr>] \<and>
      confirmedAt saved = Some 2001 \<and> shippedAt saved = None) \<and>
   (\<exists>saved.
      order_save ((an_order Pending)\<lparr>statusHistory := [], isNew := True\<rparr>)
        ''ORD00000000XXXX'' 1000 = Inr saved \<and>
      \<not> isNew saved \<and>
      statusHistory saved =
        [\<lparr>historyEntry.status = Pending, date = 1000, note' = ''Order created'',
          updatedBy = None\<rparr>])"
proof -
  have t: "trim ''paid'' = ''paid''" by (simp add: trim_def is_space_def)
  have n: "order_validate ((an_order Pending)\<lparr>statusHistory := [], isNew := True\<rparr>)"
    using an_order_valid by simp
  have h: "statusHistory (an_order Pending) =
             [\<lparr>historyEntry.status = Pending, date = 1000, note' = ''Order created'',
               updatedBy = None\<rparr>]"
    "shippedAt (an_order Pending) = None" "\<not> isNew (an_order Pending)"
    by (simp_all add: an_order_def)
  show ?thesis
    using status_change_recorded[OF an_order_valid, of Pending Confirmed "''paid''"
        "Some ''admin1''" "\<lambda>n. 2000 + n" "''ORD00000000XXXX''"]
      status_change_recorded[OF n, of Confirmed "''paid''" "Some ''admin1''"
        "\<lambda>n. 2000 + n" "''ORD00000000XXXX''" 1000] t h
    by auto
qed

section \<open>Order: a refund is bounded by the total\<close>

lemma processRefund_stored:
  assumes "order_validate this" "\<not> isNew this" "0 \<le> amount'"
  shows "processRefund this amount' reason' refundId' fmt clk num =
     Inr (this\<lparr>refund := Some \<lparr>refund.amount = amount', reason = trim reason',
                                 processedAt = clk 0, refundId = refundId'\<rparr>,
               order.status := Refunded,
               statusHistory := statusHistory this @
                 [\<lparr>historyEntry.status = Refunded, date = clk 1,
                   note' = trim (''Refund processed: $'' @ fmt amount' @ ''. Reason: '' @ reason'),
                   updatedBy = None\<rparr>]\<rparr>)"
proof -
  have "order_validate (this\<lparr>refund := Some \<lparr>refund.amount = amount', reason = trim reason',
                                 processedAt = clk 0, refundId = refundId'\<rparr>\<rparr>)"
    using assms(1,3) by (simp add: order_validate_refund)
  then show ?thesis
    using assms(2) by (simp add: processRefund_def Let_def order_save_stored)
qed

lemma findOrder_Some:
  "orders d i = Some stored \<Longrightarrow> findOrder d i = Some (stored\<lparr>isNew := False\<rparr>)"
  by (simp add: findOrder_def)

text \<open>
  Claim C4. For a stored order that passes its validators and a request that passes
  the validators of the route (an amount that is not negative, a reason), the refund
  handler answers \<open>InvalidRefundAmount\<close> and leaves the whole database, so the status
  of the order, as it was when the amount is more than the total of the order; when the
  amount is at most the total it saves the order with the refund record, with the
  status \<open>Refunded\<close> whatever the status was, and with one entry appended to the
  status history.
\<close>

theorem refund_bounded_by_total:
  assumes "orders d i = Some stored" "order_validate stored"
    and "0 \<le> amount'" "reason' \<noteq> []" "map_option trim refundId' \<noteq> Some []"
  shows "(total stored < amount' \<longrightarrow>
            refund_order d i amount' reason' refundId' fmt clk num = (InvalidRefundAmount, d)) \<and>
         (amount' \<le> total stored \<longrightarrow>
            (\<exists>saved.
               refund_order d i amount' reason' refundId' fmt clk num =
                 (Success, d\<lparr>orders := (orders d)(i \<mapsto> saved)\<rparr>) \<and>
               order.status saved = Refunded \<and>
               refund saved = Some \<lparr>refund.amount = amount', reason = trim reason',
                                     processedAt = clk 0, refundId = map_option trim refundId'\<rparr> \<and>
               statusHistory saved = statusHistory stored @
                 [\<lparr>historyEntry.status = Refunded, date = clk 1,
                   note' = trim (''Refund processed: $'' @ fmt amount' @ ''. Reason: '' @ reason'),
                   updatedBy = None\<rparr>]))"
proof -
  let ?doc = "stored\<lparr>isNew := False\<rparr>"
  have f: "findOrder d i = Some ?doc" using assms(1) by (rule findOrder_Some)
  have v: "order_validate ?doc" "\<not> isNew ?doc" using assms(2) by simp_all
  have p: "processRefund ?doc amount' reason' (map_option trim refundId') fmt clk num =
     Inr (?doc\<lparr>refund := Some \<lparr>refund.amount = amount', reason = trim reason',
                                 processedAt = clk 0, refundId = map_option trim refundId'\<rparr>,
               order.status := Refunded,
               statusHistory := statusHistory ?doc @
                 [\<lparr>historyEntry.status = Refunded, date = clk 1,
                   note' = trim (''Refund processed: $'' @ fmt amount' @ ''. Reason: '' @ reason'),
                   updatedBy = None\<rparr>]\<rparr>)"
    by (rule processRefund_stored[OF v assms(3)])
  have valid: "\<not> (amount' < 0 \<or> reason' = [] \<or> map_option trim refundId' = Some [])"
    using assms(3,4,5) by simp
  have reject: "total stored < amount' \<Longrightarrow>
      refund_order d i amount' reason' refundId' fmt clk num = (InvalidRefundAmount, d)"
    using valid f by (simp add: refund_order_def)
  have accept: "amount' \<le> total stored \<Longrightarrow>
      refund_order d i amount' reason' refundId' fmt clk num =
        (Success, d\<lparr>orders := (orders d)(i \<mapsto>
           ?doc\<lparr>refund := Some \<lparr>refund.amount = amount', reason = trim reason',
                                 processedAt = clk 0, refundId = map_option trim refundId'\<rparr>,
               order.status := Refunded,
               statusHistory := statusHistory ?doc @
                 [\<lparr>historyEntry.status = Refunded, date = clk 1,
                   note' = trim (''Refund processed: $'' @ fmt amount' @ ''. Reason: '' @ reason'),
                   updatedBy = None\<rparr>]\<rparr>)\<rparr>)"
    using valid f p by (simp add: refund_order_def)
  show ?thesis
  proof (intro conjI impI)
    assume "total stored < amount'"
    then show "refund_order d i amount' reason' refundId' fmt clk num = (InvalidRefundAmount, d)"
      by (rule reject)
  next
    assume "amount' \<le> total stored"
    from accept[OF this] show "\<exists>saved.
               refund_order d i amount' reason' refundId' fmt clk num =
                 (Success, d\<lparr>orders := (orders d)(i \<mapsto> saved)\<rparr>) \<and>
               order.status saved = Refunded \<and>
               refund saved = Some \<lparr>refund.amount = amount', reason = trim reason',
                                     processedAt = clk 0, refundId = map_option trim refundId'\<rparr> \<and>
               statusHistory saved = statusHistory stored @
                 [\<lparr>historyEntry.status = Refunded, date = clk 1,
                   note' = trim (''Refund processed: $'' @ fmt amount' @ ''. Reason: '' @ reason'),
                   updatedBy = None\<rparr>]"
      by (intro exI conjI) (assumption, simp_all)
  qed
qed


theorem refund_bounded_by_total_witness:
  "Refunded \<notin> set (validTransitions (order.status (an_order Delivered))) \<and>
   refund_order \<lparr>products = Map.empty, carts = Map.empty,
                  orders = [''o1'' \<mapsto> an_order Delivered]\<rparr>
     ''o1'' 50 ''damaged'' None (\<lambda>a. ''50'') (\<lambda>n. 3000 + n) ''ORD00000000XXXX''
   = (InvalidRefundAmount,
      \<lparr>products = Map.empty, carts = Map.empty, orders = [''o1'' \<mapsto> an_order Delivered]\<rparr>) \<and>
   (\<exists>saved.
      refund_order \<lparr>products = Map.empty, carts = Map.empty,
                     orders = [''o1'' \<mapsto> an_order Delivered]\<rparr>
        ''o1'' 49 ''damaged'' None (\<lambda>a. ''49'') (\<lambda>n. 3000 + n) ''ORD00000000XXXX''
      = (Success,
         \<lparr>products = Map.empty, carts = Map.empty, orders = [''o1'' \<mapsto> saved]\<rparr>) \<and>
      order.status saved = Refunded \<and>
      map_option refund.amount (refund saved) = Some 49)"
proof -
  let ?d = "\<lparr>products = Map.empty, carts = Map.empty,
             orders = [''o1'' \<mapsto> an_order Delivered]\<rparr>"
  have o: "orders ?d ''o1'' = Some (an_order Delivered)" by simp
  have r: "''damaged'' \<noteq> []" "map_option trim None \<noteq> Some []" by simp_all
  show ?thesis
    using refund_bounded_by_total[OF o an_order_valid _ r, of 50 "\<lambda>a. ''50''"
            "\<lambda>n. 3000 + n" "''ORD00000000XXXX''"]
          refund_bounded_by_total[OF o an_order_valid _ r, of 49 "\<lambda>a. ''49''"
            "\<lambda>n. 3000 + n" "''ORD00000000XXXX''"]
    by auto
qed

section \<open>Order: a refund touches the order alone\<close>

lemma refund_order_result:
  assumes "refund_order d i amount' reason' refundId' fmt clk num = (resp, d')"
  shows "d' = d \<or>
         (\<exists>stored saved. orders d i = Some stored \<and>
            processRefund (stored\<lparr>isNew := False\<rparr>) amount' reason' (map_option trim refundId')
              fmt clk num = Inr saved \<and>
            d' = d\<lparr>orders := (orders d)(i \<mapsto> saved)\<rparr>)"
  using assms
  by (auto simp: refund_order_def findOrder_def split: if_splits option.splits sum.splits)

lemma processRefund_frame:
  assumes "processRefund this amount' reason' refundId' fmt clk num = Inr saved" "\<not> isNew this"
  shows "saved = this\<lparr>refund := refund saved, order.status := order.status saved,
                        statusHistory := statusHistory saved\<rparr>"
  using assms
  by (auto simp: processRefund_def Let_def order_save_def order_pre_save_def split: if_splits)

text \<open>
  Claim C10. Whatever the request and its outcome, the refund handler leaves every
  product as it was (so every \<open>soldCount\<close> and \<open>totalStock\<close>), every cart, and every
  other order; and of the order itself it changes at most the refund record, the
  status and the status history (\<open>isNew\<close> is Mongoose's flag, not a path of the
  document).
\<close>

theorem refund_touches_no_product:
  "products (snd (refund_order d i amount' reason' refundId' fmt clk num)) = products d \<and>
   carts (snd (refund_order d i amount' reason' refundId' fmt clk num)) = carts d \<and>
   (\<forall>j. j \<noteq> i \<longrightarrow>
      orders (snd (refund_order d i amount' reason' refundId' fmt clk num)) j = orders d j) \<and>
   (\<forall>stored saved.
      orders d i = Some stored \<longrightarrow>
      orders (snd (refund_order d i amount' reason' refundId' fmt clk num)) i = Some saved \<longrightarrow>
      saved = stored\<lparr>refund := refund saved, order.status := order.status saved,
                      statusHistory := statusHistory saved, isNew := isNew saved\<rparr>)"
proof -
  obtain resp d' where r: "refund_order d i amount' reason' refundId' fmt clk num = (resp, d')"
    by (cases "refund_order d i amount' reason' refundId' fmt clk num") auto
  from refund_order_result[OF r] show ?thesis
  proof
    assume "d' = d"
    then show ?thesis using r by auto
  next
    assume "\<exists>stored saved. orders d i = Some stored \<and>
            processRefund (stored\<lparr>isNew := False\<rparr>) amount' reason' (map_option trim refundId')
              fmt clk num = Inr saved \<and>
            d' = d\<lparr>orders := (orders d)(i \<mapsto> saved)\<rparr>"
    then obtain stored saved where s: "orders d i = Some stored"
      "processRefund (stored\<lparr>isNew := False\<rparr>) amount' reason' (map_option trim refundId')
              fmt clk num = Inr saved"
      "d' = d\<lparr>orders := (orders d)(i \<mapsto> saved)\<rparr>"
      by blast
    have "saved = (stored\<lparr>isNew := False\<rparr>)\<lparr>refund := refund saved,
             order.status := order.status saved, statusHistory := statusHistory saved\<rparr>"
      by (rule processRefund_frame[OF s(2)]) simp
    then have "saved = stored\<lparr>refund := refund saved, order.status := order.status saved,
                      statusHistory := statusHistory saved, isNew := isNew saved\<rparr>"
      by (metis (no_types, lifting) order.surjective order.update_convs(11,12,17,18))
    then show ?thesis using r s(1,3) by auto
  qed
qed

theorem refund_touches_no_product_witness:
  "products (snd (refund_order
       \<lparr>products = [''p1'' \<mapsto> a_product 5 2], carts = Map.empty,
        orders = [''o1'' \<mapsto> an_order Delivered, ''o2'' \<mapsto> an_order Shipped]\<rparr>
       ''o1'' 49 ''damaged'' None (\<lambda>a. ''49'') (\<lambda>n. 3000 + n) ''ORD00000000XXXX'')) ''p1''
     = Some (a_product 5 2) \<and>
   orders (snd (refund_order
       \<lparr>products = [''p1'' \<mapsto> a_product 5 2], carts = Map.empty,
        orders = [''o1'' \<mapsto> an_order Delivered, ''o2'' \<mapsto> an_order Shipped]\<rparr>
       ''o1'' 49 ''damaged'' None (\<lambda>a. ''49'') (\<lambda>n. 3000 + n) ''ORD00000000XXXX'')) ''o2''
     = Some (an_order Shipped)"
  using refund_touches_no_product[of
      "\<lparr>products = [''p1'' \<mapsto> a_product 5 2], carts = Map.empty,
        orders = [''o1'' \<mapsto> an_order Delivered, ''o2'' \<mapsto> an_order Shipped]\<rparr>"
      "''o1''" 49 "''damaged''" None "\<lambda>a. ''49''" "\<lambda>n. 3000 + n" "''ORD00000000XXXX''"]
  by simp

section \<open>Product: the number sold and the stock\<close>

text \<open>
  What a save of \<open>updateSoldCount\<close> guarantees: the number sold is not negative.
  Nothing in it compares the number with the stock.
\<close>

lemma updateSoldCount_not_negative:
  "updateSoldCount this q = Inr saved \<Longrightarrow>
   soldCount saved = soldCount this + q \<and> 0 \<le> soldCount saved \<and>
   totalStock saved = totalStock this"
  by (auto simp: updateSoldCount_def Let_def product_save_def product_validate_def
        product_pre_save_def split: if_splits)

text \<open>
  How the two carts of the run below come about, with the id of the product written in
  full: \<open>POST /api/cart/add\<close> accepts 5 of a product with 5 in stock from each of two
  users.
\<close>

lemma oversell_carts_accepted:
  "(let d0 = \<lparr>products = [''507f1f77bcf86cd799439011'' \<mapsto> a_product 5 0], carts = Map.empty,
               orders = Map.empty\<rparr>;
        r1 = cart_add d0 ''u1'' ''507f1f77bcf86cd799439011'' (Num 5) ''black'' Md
               ''line-507f1f77bcf86cd799439011'';
        r2 = cart_add (snd r1) ''u2'' ''507f1f77bcf86cd799439011'' (Num 5) ''black'' Md
               ''line-507f1f77bcf86cd799439011''
    in fst r1 = Success \<and> fst r2 = Success \<and>
       carts (snd r2) ''u1'' = Some (a_cart ''u1'' [a_line ''507f1f77bcf86cd799439011'' 5]) \<and>
       carts (snd r2) ''u2'' = Some (a_cart ''u2'' [a_line ''507f1f77bcf86cd799439011'' 5]))"
  by (simp add: Let_def cart_add_def isMongoId_def castObjectId_def is_hex_def lower_hex_def
        char_of_def bit_Suc_0_iff isInt_min1_def js_less_def castNumber_def a_cart_def a_line_def a_product_def
        availableStock_def cart_save_def cart_validate_def cart_pre_save_def)

text \<open>
  Claim C1 (the code breaks it). A product has 5 in stock and none sold; two users each
  hold 5 of it in their carts (\<open>POST /api/cart/add\<close> accepts both, as
  \<open>oversell_carts_accepted\<close> shows). Both complete their checkout: both calls answer \<open>Success\<close>, and the
  product ends with \<open>soldCount = 10\<close> and \<open>totalStock = 5\<close>. The handler of
  \<open>POST /api/checkout/complete\<close> calls \<open>updateSoldCount\<close> without the stock check
  that \<open>POST /api/checkout\<close> and \<open>POST /api/cart/add\<close> make.
\<close>

theorem sold_count_exceeds_stock:
  "(let d0 = \<lparr>products = [''p1'' \<mapsto> a_product 5 0],
               carts = [''u1'' \<mapsto> a_cart ''u1'' [a_line ''p1'' 5],
                        ''u2'' \<mapsto> a_cart ''u2'' [a_line ''p1'' 5]],
               orders = Map.empty\<rparr>;
        r1 = complete_checkout d0 ''u1'' ''pi_1'' ''ORD-1'';
        r2 = complete_checkout (snd r1) ''u2'' ''pi_2'' ''ORD-2''
    in fst r1 = Success \<and> fst r2 = Success \<and>
       map_option soldCount (products (snd r2) ''p1'') = Some 10 \<and>
       map_option totalStock (products (snd r2) ''p1'') = Some 5)"
  by (simp add: Let_def complete_checkout_def a_cart_def a_line_def a_product_def
        cart_pre_save_def clearCart_def cart_save_def cart_validate_def updateSoldCount_def
        product_save_def product_validate_def product_pre_save_def availableStock_def)


section \<open>Order: the transition table\<close>

text \<open>
  For any behaviour \<open>m\<close> of the two inventory methods and any outcome of the chained
  \<open>populate\<close>: a status outside the row of the current status is refused and nothing
  is written; a request that succeeded asked for a status of the row and saved it. A
  status of the row other than \<open>Cancelled\<close> and \<open>Shipped\<close>, for which the handler
  calls neither method, is saved; the answer is \<open>Success\<close> where the chained
  \<open>populate\<close> goes through and \<open>ServerError\<close> where it throws.
\<close>

lemma status_update_rejected:
  assumes "orders d i = Some stored" "length (trim note) \<le> 500"
    and "newStatus \<notin> set (validTransitions (order.status stored))"
  shows "update_order_status m d userId i newStatus note clk num chain =
           (InvalidStatusTransition, d)"
  using assms by (simp add: update_order_status_def findOrder_def)

lemma status_update_success:
  assumes "update_order_status m d userId i newStatus note clk num chain = (Success, d')"
  shows "\<exists>stored saved. orders d i = Some stored \<and>
           newStatus \<in> set (validTransitions (order.status stored)) \<and>
           updateStatus (stored\<lparr>isNew := False\<rparr>) newStatus (trim note) (Some userId) clk num
             = Inr saved \<and>
           orders d' i = Some saved"
  using assms
  by (auto simp: update_order_status_def findOrder_def
           split: if_splits option.splits sum.splits prod.splits)

lemma status_update_without_inventory:
  assumes "orders d i = Some stored" "order_validate stored" "length (trim note) \<le> 500"
    and "newStatus \<in> set (validTransitions (order.status stored))"
    and "newStatus \<noteq> Cancelled" "newStatus \<noteq> Shipped"
  shows "\<exists>saved. update_order_status m d userId i newStatus note clk num chain =
           ((case chain of None \<Rightarrow> Success | Some e \<Rightarrow> ServerError),
            d\<lparr>orders := (orders d)(i \<mapsto> saved)\<rparr>) \<and>
           order.status saved = newStatus"
proof -
  let ?doc = "stored\<lparr>isNew := False\<rparr>"
  have v: "order_validate ?doc" "\<not> isNew ?doc" using assms(2) by simp_all
  obtain saved where u: "updateStatus ?doc newStatus (trim note) (Some userId) clk num = Inr saved"
      "order.status saved = newStatus"
    using updateStatus_stored[OF v, of newStatus "trim note" "Some userId" clk num] by simp
  show ?thesis
    using assms(1,3,4,5,6) u
    by (intro exI[of _ saved])
       (simp add: update_order_status_def findOrder_def split: option.splits)
qed

text \<open>
  Claim C2 (the code breaks it). \<open>Cancelled\<close> is in the row of \<open>Pending\<close>, yet with
  the methods \<^verbatim>\<open>models/Product.js\<close> supplies the request to cancel a pending order of
  one line, whose product exists, is answered \<open>ServerError\<close> and the order stays
  pending, whatever the chained \<open>populate\<close> would do: \<open>product.releaseReservedInventory\<close>
  is not a function.
\<close>

theorem status_update_to_cancelled_fails:
  "Cancelled \<in> set (validTransitions Pending) \<and>
   update_order_status Product_methods
     \<lparr>products = [''p1'' \<mapsto> a_product 5 2], carts = Map.empty,
      orders = [''o1'' \<mapsto> an_order Pending]\<rparr>
     ''admin1'' ''o1'' Cancelled [] (\<lambda>n. 2000 + n) ''ORD00000000XXXX'' chain
   = (ServerError,
      \<lparr>products = [''p1'' \<mapsto> a_product 5 2], carts = Map.empty,
       orders = [''o1'' \<mapsto> an_order Pending]\<rparr>)"
  by (simp add: update_order_status_def findOrder_def trim_def Product_methods_def)

section \<open>Order: cancelling\<close>

lemma cancel_order_rejected:
  assumes "orders d i = Some stored" "length (trim reason') \<le> 500"
    and "role = ''admin'' \<or> order.user stored = userId"
    and "order.status stored \<notin> {Pending, Confirmed}"
  shows "cancel_order m d userId role i reason' clk num = (CannotCancelOrder, d)"
  using assms by (auto simp: cancel_order_def findOrder_def canBeCancelled_def)

lemma cancel_order_accepted:
  assumes "orders d i = Some stored" "order_validate stored" "length (trim reason') \<le> 500"
    and "role = ''admin'' \<or> order.user stored = userId"
    and "order.status stored \<in> {Pending, Confirmed}"
  shows "\<exists>saved ps.
           updateStatus (stored\<lparr>isNew := False\<rparr>) Cancelled
             (if trim reason' \<noteq> [] then trim reason' else ''Cancelled by user'')
             (Some userId) clk num = Inr saved \<and>
           order.items saved = order.items stored \<and> order.status saved = Cancelled \<and>
           cancelledAt saved = Some (clk 1) \<and>
           cancel_order m d userId role i reason' clk num =
             (if fst (adjust_inventory m ''add'' (products d) (order.items stored)) = None
              then Success else ServerError,
              d\<lparr>products := ps, orders := (orders d)(i \<mapsto> saved)\<rparr>)"
proof -
  let ?doc = "stored\<lparr>isNew := False\<rparr>"
  let ?note = "if trim reason' \<noteq> [] then trim reason' else ''Cancelled by user''"
  have v: "order_validate ?doc" "\<not> isNew ?doc" using assms(2) by simp_all
  obtain saved where u: "updateStatus ?doc Cancelled ?note (Some userId) clk num = Inr saved"
      "order.items saved = order.items stored" "order.status saved = Cancelled"
      "cancelledAt saved = Some (clk 1)"
    using updateStatus_stored[OF v, of Cancelled ?note "Some userId" clk num] by simp
  obtain e ps where a: "adjust_inventory m ''add'' (products d) (order.items stored) = (e, ps)"
    by (cases "adjust_inventory m ''add'' (products d) (order.items stored)") auto
  have c: "canBeCancelled ?doc" using assms(5) by (auto simp: canBeCancelled_def)
  have "cancel_order m d userId role i reason' clk num =
          (if e = None then Success else ServerError,
           d\<lparr>products := ps, orders := (orders d)(i \<mapsto> saved)\<rparr>)"
    using assms(1,3,4) c u a
    by (cases e) (auto simp: cancel_order_def findOrder_def)
  then show ?thesis using u a by auto
qed


text \<open>
  Claim C5, as amended. For a stored order that passes its validators, requested by its
  owner or by an admin: the cancel handler answers \<open>CannotCancelOrder\<close> exactly when
  the status is neither \<open>Pending\<close> nor \<open>Confirmed\<close> (an order in \<open>Processing\<close> is
  refused), and then writes nothing; for a pending or confirmed order it saves the order
  as \<open>Cancelled\<close>, with \<open>cancelledAt\<close> set, and answers \<open>Success\<close> exactly when the
  inventory loop that follows raised no exception.
\<close>

theorem cancel_allowed_when_pending_or_confirmed:
  assumes "orders d i = Some stored" "order_validate stored" "length (trim reason') \<le> 500"
    and "role = ''admin'' \<or> order.user stored = userId"
  shows "(fst (cancel_order m d userId role i reason' clk num) = CannotCancelOrder \<longleftrightarrow>
            order.status stored \<notin> {Pending, Confirmed}) \<and>
         (order.status stored \<notin> {Pending, Confirmed} \<longrightarrow>
            snd (cancel_order m d userId role i reason' clk num) = d) \<and>
         (order.status stored \<in> {Pending, Confirmed} \<longrightarrow>
            (\<exists>saved. orders (snd (cancel_order m d userId role i reason' clk num)) i = Some saved \<and>
               order.status saved = Cancelled \<and> cancelledAt saved = Some (clk 1)) \<and>
            (fst (cancel_order m d userId role i reason' clk num) = Success \<longleftrightarrow>
               fst (adjust_inventory m ''add'' (products d) (order.items stored)) = None))"
proof (cases "order.status stored \<in> {Pending, Confirmed}")
  case True
  from cancel_order_accepted[OF assms True]
  obtain saved ps where
    "order.status saved = Cancelled" "cancelledAt saved = Some (clk 1)"
    "cancel_order m d userId role i reason' clk num =
       (if fst (adjust_inventory m ''add'' (products d) (order.items stored)) = None
        then Success else ServerError,
        d\<lparr>products := ps, orders := (orders d)(i \<mapsto> saved)\<rparr>)"
    by blast
  then show ?thesis using True by auto
next
  case False
  then show ?thesis
    using cancel_order_rejected[OF assms(1,3,4) False] by simp
qed

theorem cancel_allowed_when_pending_or_confirmed_witness:
  "(\<exists>saved.
      orders (snd (cancel_order Product_methods
                     \<lparr>products = [''p1'' \<mapsto> a_product 5 2], carts = Map.empty,
                      orders = [''o1'' \<mapsto> an_order Confirmed]\<rparr>
                     ''u1'' ''customer'' ''o1'' ''changed my mind'' (\<lambda>n. 2000 + n)
                     ''ORD00000000XXXX'')) ''o1'' = Some saved \<and>
      order.status saved = Cancelled \<and> cancelledAt saved = Some 2001) \<and>
   fst (cancel_order Product_methods
          \<lparr>products = [''p1'' \<mapsto> a_product 5 2], carts = Map.empty,
           orders = [''o1'' \<mapsto> an_order Confirmed]\<rparr>
          ''u1'' ''customer'' ''o1'' ''changed my mind'' (\<lambda>n. 2000 + n)
          ''ORD00000000XXXX'') \<noteq> CannotCancelOrder"
proof -
  let ?d = "\<lparr>products = [''p1'' \<mapsto> a_product 5 2], carts = Map.empty,
             orders = [''o1'' \<mapsto> an_order Confirmed]\<rparr>"
  have t: "length (trim ''changed my mind'') \<le> 500" by (simp add: trim_def is_space_def)
  have o: "orders ?d ''o1'' = Some (an_order Confirmed)" by simp
  have u: "''customer'' = ''admin'' \<or> order.user (an_order Confirmed) = ''u1''" by simp
  show ?thesis
    using cancel_allowed_when_pending_or_confirmed[OF o an_order_valid t u,
        of Product_methods "\<lambda>n. 2000 + n" "''ORD00000000XXXX''"]
    by simp
qed

text \<open>
  The claim as stated fails for an order in \<open>Processing\<close>: the handler refuses it,
  whatever the inventory methods do.
\<close>

theorem cancel_refused_in_processing:
  "order.status (an_order Processing) \<in> {Pending, Confirmed, Processing} \<and>
   (\<forall>m. cancel_order m
          \<lparr>products = [''p1'' \<mapsto> a_product 5 2], carts = Map.empty,
           orders = [''o1'' \<mapsto> an_order Processing]\<rparr>
          ''u1'' ''customer'' ''o1'' [] (\<lambda>n. 2000 + n) ''ORD00000000XXXX''
        = (CannotCancelOrder,
           \<lparr>products = [''p1'' \<mapsto> a_product 5 2], carts = Map.empty,
            orders = [''o1'' \<mapsto> an_order Processing]\<rparr>))"
  by (simp add: cancel_order_def findOrder_def canBeCancelled_def trim_def)

section \<open>Checkout: every line short of stock is reported\<close>

text \<open>
  When every line of the cart has its product, the checkout of a cart with a line short
  of stock answers \<open>StockIssues\<close> with one entry for each such line, in the order of
  the cart; and the handler writes nothing, whatever it answers.
\<close>

lemma stock_issues_all:
  assumes "\<forall>item\<in>set lines. ps (cartItem.product item) \<noteq> None"
  shows "stock_issues ps lines acc =
           Inr (acc @ map (issue_of ps) (filter (unavailable ps) lines))"
  using assms
  by (induction lines arbitrary: acc) (auto simp: unavailable_def issue_of_def)

lemma stock_issues_dangling:
  assumes "\<exists>item\<in>set lines. ps (cartItem.product item) = None"
  shows "stock_issues ps lines acc = Inl TypeError"
  using assms
proof (induction lines arbitrary: acc)
  case Nil
  then show ?case by simp
next
  case (Cons item rest)
  show ?case
  proof (cases "ps (cartItem.product item)")
    case None
    then show ?thesis by simp
  next
    case (Some p)
    then have "\<exists>item\<in>set rest. ps (cartItem.product item) = None"
      using Cons.prems by auto
    then show ?thesis using Cons.IH Some by simp
  qed
qed

lemma checkout_writes_nothing: "snd (checkout d userId) = d"
  by (simp add: checkout_def Let_def split: option.splits sum.splits)

lemma checkout_lists_every_conflict:
  assumes "carts d userId = Some c" "cart.items c \<noteq> []"
    and "\<forall>item\<in>set (cart.items c). products d (cartItem.product item) \<noteq> None"
    and "\<exists>item\<in>set (cart.items c). unavailable (products d) item"
  shows "checkout d userId =
           (StockIssues (map (issue_of (products d)) (filter (unavailable (products d)) (cart.items c))), d)"
proof -
  have "filter (unavailable (products d)) (cart.items c) \<noteq> []"
    using assms(4) by (simp add: filter_empty_conv)
  then show ?thesis
    using assms(1,2) stock_issues_all[OF assms(3), of "[]"] by (simp add: checkout_def)
qed

text \<open>
  Claim C3 (the code breaks it). The cart holds a line of a product that an admin has
  deleted since (\<open>DELETE /api/admin/products/:id\<close>) and a line that asks for 4 where 3
  are available. The handler answers \<open>ServerError\<close>, not \<open>StockIssues\<close>:
  \<open>populate\<close> left \<open>null\<close> for the deleted product and reading its \<open>inStock\<close>
  throws. Nothing is written.
\<close>

theorem checkout_with_deleted_product_fails:
  "availableStock (a_product 5 2) < cartItem.quantity (a_line ''p1'' 4) \<and>
   checkout \<lparr>products = [''p1'' \<mapsto> a_product 5 2],
             carts = [''u1'' \<mapsto> a_cart ''u1'' [a_line ''p0'' 1, a_line ''p1'' 4]],
             orders = Map.empty\<rparr> ''u1''
   = (ServerError,
      \<lparr>products = [''p1'' \<mapsto> a_product 5 2],
       carts = [''u1'' \<mapsto> a_cart ''u1'' [a_line ''p0'' 1, a_line ''p1'' 4]],
       orders = Map.empty\<rparr>)"
  by (simp add: checkout_def a_cart_def a_line_def a_product_def cart_pre_save_def
        availableStock_def)

end
